theory Spec2Isabelle
  imports Main
begin

section \<open>JavaScript values and strings\<close>

text \<open>
  The edit grid, the save handler and the connection classes are TypeScript. Strings are
  modelled as \<^typ>\<open>string\<close> (one \<^typ>\<open>char\<close> per code unit below 256), the scalar values
  that travel in a row as \<open>jsval\<close>, and a plain object as an association list in the
  order \<open>Object.entries\<close> enumerates it.
\<close>

datatype jsval = JUndefined | JNull | JStr string | JNum int

type_synonym jsobj = "(string \<times> jsval) list"

definition obj_get :: "jsobj \<Rightarrow> string \<Rightarrow> jsval" where
  "obj_get obj k = (case map_of obj k of None \<Rightarrow> JUndefined | Some v \<Rightarrow> v)"

definition obj_keys :: "(string \<times> 'a) list \<Rightarrow> string list" where
  "obj_keys obj = map fst obj"

fun obj_set :: "(string \<times> 'a) list \<Rightarrow> string \<Rightarrow> 'a \<Rightarrow> (string \<times> 'a) list" where
  "obj_set [] k v = [(k, v)]"
| "obj_set ((k', v') # rest) k v =
     (if k' = k then (k, v) # rest else (k', v') # obj_set rest k v)"

definition js_whitespace :: "char \<Rightarrow> bool" where
  "js_whitespace c = (c \<in> set [CHR 0x09, CHR 0x0A, CHR 0x0B, CHR 0x0C, CHR 0x0D, CHR 0x20, CHR 0xA0])"

definition js_trim :: "string \<Rightarrow> string" where
  "js_trim s = rev (dropWhile js_whitespace (rev (dropWhile js_whitespace s)))"

definition digit_char :: "nat \<Rightarrow> char" where
  "digit_char d = char_of (48 + d)"

function string_of_nat :: "nat \<Rightarrow> string" where
  "string_of_nat n = (if n < 10 then [digit_char n] else string_of_nat (n div 10) @ [digit_char (n mod 10)])"
  by pat_completeness auto
termination
  by (relation "measure id") auto

declare string_of_nat.simps [simp del]

definition string_of_int :: "int \<Rightarrow> string" where
  "string_of_int i = (if i < 0 then CHR ''-'' # string_of_nat (nat (- i)) else string_of_nat (nat i))"

fun join :: "string \<Rightarrow> string list \<Rightarrow> string" where
  "join sep [] = []"
| "join sep [x] = x"
| "join sep (x # y # ys) = x @ sep @ join sep (y # ys)"

text \<open>\<open>s.startsWith(p)\<close>\<close>

fun starts_with :: "string \<Rightarrow> string \<Rightarrow> bool" where
  "starts_with s [] = True"
| "starts_with [] (p # ps) = False"
| "starts_with (c # cs) (p # ps) = (c = p \<and> starts_with cs ps)"

text \<open>\<open>!v\<close>: the values JavaScript treats as false.\<close>

fun js_falsy :: "jsval \<Rightarrow> bool" where
  "js_falsy JUndefined = True"
| "js_falsy JNull = True"
| "js_falsy (JStr s) = (s = [])"
| "js_falsy (JNum n) = (n = 0)"

text \<open>An optional string field of a configuration: \<open>!config.host\<close>.\<close>

fun missing :: "string option \<Rightarrow> bool" where
  "missing None = True"
| "missing (Some s) = (s = [])"

section \<open>DatabaseServiceImpl.connect: bounded retry\<close>

datatype db_type = MySQL | SQLite | MongoDB | Oracle | OtherType string

record db_config =
  cfg_type :: db_type
  cfg_alias :: string
  host :: "string option"
  port :: "nat option"
  username :: "string option"
  password :: "string option"
  database :: "string option"
  filename :: "string option"
  connectionString :: "string option"
  sid :: "string option"
  serviceName :: "string option"

definition maxRetries :: nat where "maxRetries = 3"
definition retryDelay :: nat where "retryDelay = 1000"

datatype svc_event =
    Attempt nat
  | DriverConnect nat
  | ShowWarning nat
  | ShowError nat
  | Sleep nat
  | DriverQuery string
  | DriverFind string

text \<open>
  The body of the \<open>try\<close> block of one attempt (part_005). The driver is the environment:
  it answers attempt \<open>k\<close> with a handle or fails. A thrown error of any kind is \<open>None\<close>;
  the second component says whether the driver was reached. In the log, \<open>Attempt k\<close> marks
  the entry of the \<open>k\<close>-th iteration of the \<open>for\<close> loop.
\<close>

definition missing_port :: "nat option \<Rightarrow> bool" where
  "missing_port p = (p = None \<or> p = Some 0)"

definition try_connect :: "(nat \<Rightarrow> 'h option) \<Rightarrow> db_config \<Rightarrow> nat \<Rightarrow> 'h option \<times> bool" where
  "try_connect driver config attempt =
     (case cfg_type config of
        MySQL \<Rightarrow> (driver attempt, True)
      | SQLite \<Rightarrow> (driver attempt, True)
      | MongoDB \<Rightarrow>
          (if missing (host config) \<or> missing_port (port config) then (None, False)
           else (driver attempt, True))
      | Oracle \<Rightarrow>
          (if (missing (host config) \<or> missing_port (port config) \<or> missing (username config)
                 \<or> missing (password config)) \<and> missing (connectionString config)
           then (None, False)
           else if missing (connectionString config) \<and> missing (sid config) \<and> missing (serviceName config)
           then (None, False)
           else (driver attempt, True))
      | OtherType t \<Rightarrow> (None, False))"

record 'h svc_result =
  returned :: bool
  stored :: "'h option"
  events :: "svc_event list"

function connect_loop :: "(nat \<Rightarrow> 'h option) \<Rightarrow> db_config \<Rightarrow> nat \<Rightarrow> svc_event list \<Rightarrow> 'h svc_result" where
  "connect_loop driver config attempt log =
     (if attempt \<le> maxRetries then
        (case try_connect driver config attempt of
           (Some h, reached) \<Rightarrow>
             \<lparr>returned = True, stored = Some h,
              events = log @ Attempt attempt # (if reached then [DriverConnect attempt] else [])\<rparr>
         | (None, reached) \<Rightarrow>
             (let log' = log @ Attempt attempt # (if reached then [DriverConnect attempt] else []) in
              if attempt = maxRetries
              then \<lparr>returned = False, stored = None, events = log' @ [ShowError attempt]\<rparr>
              else connect_loop driver config (attempt + 1)
                     (log' @ [ShowWarning attempt, Sleep retryDelay])))
      else \<lparr>returned = False, stored = None, events = log\<rparr>)"
  by pat_completeness auto
termination
  by (relation "measure (\<lambda>(driver, config, attempt, log). Suc maxRetries - attempt)") auto

declare connect_loop.simps [simp del]

definition svc_connect :: "(nat \<Rightarrow> 'h option) \<Rightarrow> db_config \<Rightarrow> 'h svc_result" where
  "svc_connect driver config = connect_loop driver config 1 []"

text \<open>
  \<open>DatabaseServiceImpl.executeQuery\<close>: one call of the driver, chosen by the kind of the
  handle; the document store accepts only \<open>db.<collection>.find\<close>, matched by the
  regular expression \<open>db\.(\w+)\.find\<close> anywhere in the text.
\<close>

definition word_char :: "char \<Rightarrow> bool" where
  "word_char c = (let n = of_char c :: nat in
     (48 \<le> n \<and> n \<le> 57) \<or> (65 \<le> n \<and> n \<le> 90) \<or> (97 \<le> n \<and> n \<le> 122) \<or> n = 95)"

definition match_db_find_at :: "string \<Rightarrow> string option" where
  "match_db_find_at s =
     (if starts_with s ''db.'' then
        (let r = drop 3 s; w = takeWhile word_char r in
         if w \<noteq> [] \<and> starts_with (dropWhile word_char r) ''.find'' then Some w else None)
      else None)"

fun match_db_find :: "string \<Rightarrow> string option" where
  "match_db_find [] = None"
| "match_db_find (c # cs) =
     (case match_db_find_at (c # cs) of Some w \<Rightarrow> Some w | None \<Rightarrow> match_db_find cs)"

datatype handle_kind = MySQLConn | OracleConn | SQLiteConn | MongoConn | UnknownConn

datatype query_error = NoConnection | InvalidMongoQuery | DriverError

definition svc_executeQuery ::
  "handle_kind option \<Rightarrow> (svc_event \<Rightarrow> 'r option) \<Rightarrow> 'r \<Rightarrow> string \<Rightarrow> (query_error + 'r) \<times> svc_event list" where
  "svc_executeQuery connection driver empty_rows query =
     (case connection of
        None \<Rightarrow> (Inl NoConnection, [])
      | Some MongoConn \<Rightarrow>
          (case match_db_find query of
             None \<Rightarrow> (Inl InvalidMongoQuery, [])
           | Some collectionName \<Rightarrow>
               (case driver (DriverFind collectionName) of
                  None \<Rightarrow> (Inl DriverError, [DriverFind collectionName])
                | Some rows \<Rightarrow> (Inr rows, [DriverFind collectionName])))
      | Some UnknownConn \<Rightarrow> (Inr empty_rows, [])
      | Some _ \<Rightarrow>
          (case driver (DriverQuery query) of
             None \<Rightarrow> (Inl DriverError, [DriverQuery query])
           | Some rows \<Rightarrow> (Inr rows, [DriverQuery query])))"

fun attempts_made :: "svc_event list \<Rightarrow> nat list" where
  "attempts_made [] = []"
| "attempts_made (Attempt k # es) = k # attempts_made es"
| "attempts_made (e # es) = attempts_made es"

fun sleeps :: "svc_event list \<Rightarrow> nat list" where
  "sleeps [] = []"
| "sleeps (Sleep ms # es) = ms # sleeps es"
| "sleeps (e # es) = sleeps es"

fun driver_calls :: "svc_event list \<Rightarrow> svc_event list" where
  "driver_calls [] = []"
| "driver_calls (DriverConnect k # es) = DriverConnect k # driver_calls es"
| "driver_calls (DriverQuery q # es) = DriverQuery q # driver_calls es"
| "driver_calls (DriverFind c # es) = DriverFind c # driver_calls es"
| "driver_calls (e # es) = driver_calls es"

definition attempt_fails :: "(nat \<Rightarrow> 'h option) \<Rightarrow> db_config \<Rightarrow> nat \<Rightarrow> bool" where
  "attempt_fails driver config k = (fst (try_connect driver config k) = None)"

section \<open>DatabaseManager: the connection registry\<close>

text \<open>
  \<open>DatabaseManager\<close> keeps two maps, \<open>connections\<close> (id to driver handle) and
  \<open>connectionStatus\<close> (id to boolean), and reads profiles from the \<open>ConfigManager\<close>.
  The driver and the file system are the environment: each operation carries what they
  answered. JavaScript runs a method without interruption between two \<open>await\<close>s, and no
  method separates its writes to the two maps by an \<open>await\<close>, so a method is one step.
\<close>

fun type_name :: "db_type \<Rightarrow> string" where
  "type_name MySQL = ''mysql''"
| "type_name SQLite = ''sqlite''"
| "type_name MongoDB = ''mongodb''"
| "type_name Oracle = ''oracle''"
| "type_name (OtherType t) = t"

text \<open>\<open>a || b\<close> on optional strings.\<close>

definition or_else :: "string option \<Rightarrow> string \<Rightarrow> string" where
  "or_else a b = (if missing a then b else the a)"

definition generateConnectionId :: "db_config \<Rightarrow> nat \<Rightarrow> string" where
  "generateConnectionId config timestamp =
     type_name (cfg_type config) @ ''-'' @ or_else (host config) (or_else (filename config) [])
       @ ''-'' @ or_else (database config) [] @ ''-'' @ string_of_nat timestamp"

record 'h manager =
  connections :: "string \<rightharpoonup> 'h"
  connectionStatus :: "string \<rightharpoonup> bool"
  profiles :: "(string \<times> db_config) list"

definition isConnected :: "'h manager \<Rightarrow> string \<Rightarrow> bool" where
  "isConnected m connectionId = (connectionStatus m connectionId = Some True)"

datatype connect_error =
    ConfigNotFound | ConfigIncomplete | OracleNeedsSidOrService | UnsupportedType | ConnectFailure

text \<open>The \<open>switch\<close> of \<open>DatabaseManager.connect\<close>; the driver is called at most once.\<close>

definition open_connection :: "db_config \<Rightarrow> 'h option \<Rightarrow> connect_error + 'h" where
  "open_connection config driver =
     (let dial = (case driver of None \<Rightarrow> Inl ConnectFailure | Some h \<Rightarrow> Inr h) in
      case cfg_type config of
        MySQL \<Rightarrow>
          (if missing (host config) \<or> missing (username config) \<or> missing (password config)
                \<or> missing (database config) \<or> missing_port (port config)
           then Inl ConfigIncomplete else dial)
      | SQLite \<Rightarrow> (if missing (filename config) then Inl ConfigIncomplete else dial)
      | MongoDB \<Rightarrow>
          (if missing (host config) \<or> missing_port (port config) then Inl ConfigIncomplete else dial)
      | Oracle \<Rightarrow>
          (if (missing (host config) \<or> missing_port (port config) \<or> missing (username config)
                 \<or> missing (password config)) \<and> missing (connectionString config)
           then Inl ConfigIncomplete
           else if missing (connectionString config) \<and> missing (sid config) \<and> missing (serviceName config)
           then Inl OracleNeedsSidOrService
           else dial)
      | OtherType t \<Rightarrow> Inl UnsupportedType)"

definition mgr_connect ::
  "'h manager \<Rightarrow> db_config + string \<Rightarrow> nat \<Rightarrow> 'h option \<Rightarrow> (connect_error + bool) \<times> 'h manager" where
  "mgr_connect m configOrId timestamp driver =
     (case (case configOrId of
              Inr connectionId \<Rightarrow>
                (case map_of (profiles m) connectionId of
                   None \<Rightarrow> Inl ConfigNotFound
                 | Some config \<Rightarrow> Inr (config, connectionId))
            | Inl config \<Rightarrow> Inr (config, generateConnectionId config timestamp)) of
        Inl e \<Rightarrow> (Inl e, m)
      | Inr (config, connectionId) \<Rightarrow>
          (case open_connection config driver of
             Inl e \<Rightarrow> (Inl e, m)
           | Inr connection \<Rightarrow>
               (Inr True,
                m\<lparr>connections := (connections m)(connectionId \<mapsto> connection),
                  connectionStatus := (connectionStatus m)(connectionId \<mapsto> True)\<rparr>)))"

text \<open>
  \<open>disconnect\<close>: without a handle it returns at once; when closing the handle throws, the
  \<open>catch\<close> shows a message and both maps stay as they were.
\<close>

definition mgr_disconnect :: "'h manager \<Rightarrow> string \<Rightarrow> bool \<Rightarrow> 'h manager" where
  "mgr_disconnect m connectionId close_ok =
     (case connections m connectionId of
        None \<Rightarrow> m
      | Some connection \<Rightarrow>
          (if close_ok
           then m\<lparr>connections := (connections m)(connectionId := None),
                  connectionStatus := (connectionStatus m)(connectionId \<mapsto> False)\<rparr>
           else m))"

definition mgr_addConfig :: "'h manager \<Rightarrow> db_config \<Rightarrow> nat \<Rightarrow> string \<times> 'h manager" where
  "mgr_addConfig m config timestamp =
     (let connectionId = generateConnectionId config timestamp in
      (connectionId, m\<lparr>profiles := obj_set (profiles m) connectionId config\<rparr>))"

text \<open>
  \<open>removeConfig\<close> disconnects, deletes the profile and saves; a failed save is thrown
  after the profile is gone.
\<close>

datatype config_error = SaveFailed

definition mgr_removeConfig ::
  "'h manager \<Rightarrow> string \<Rightarrow> bool \<Rightarrow> bool \<Rightarrow> (config_error + bool) \<times> 'h manager" where
  "mgr_removeConfig m connectionId close_ok write_ok =
     (let m' = mgr_disconnect m connectionId close_ok in
      if connectionId \<in> set (obj_keys (profiles m'))
      then (if write_ok then Inr True else Inl SaveFailed,
            m'\<lparr>profiles := filter (\<lambda>p. fst p \<noteq> connectionId) (profiles m')\<rparr>)
      else (Inr False, m'))"

text \<open>
  \<open>updateConfig\<close> calls \<open>disconnect\<close> without awaiting it; here the disconnect has
  finished before the profile is replaced.
\<close>

definition mgr_updateConfig :: "'h manager \<Rightarrow> string \<Rightarrow> db_config \<Rightarrow> bool \<Rightarrow> bool \<times> 'h manager" where
  "mgr_updateConfig m connectionId config close_ok =
     (let m' = mgr_disconnect m connectionId close_ok in
      if connectionId \<in> set (obj_keys (profiles m'))
      then (True, m'\<lparr>profiles := obj_set (profiles m') connectionId config\<rparr>)
      else (False, m'))"

definition mgr_ensureConnected ::
  "'h manager \<Rightarrow> string \<Rightarrow> nat \<Rightarrow> 'h option \<Rightarrow> (connect_error + bool) \<times> 'h manager" where
  "mgr_ensureConnected m connectionId timestamp driver =
     (if connectionStatus m connectionId = Some True then (Inr True, m)
      else mgr_connect m (Inr connectionId) timestamp driver)"

text \<open>
  The calls of a client, each with the answers of the environment. A \<open>connect\<close> or a
  \<open>disconnect\<close> is suspended while the driver works and other calls may run before it
  resumes; \<open>ConnectResumes\<close> and \<open>DisconnectResumes\<close> are the rest of such a call, the two
  writes that follow its \<open>await\<close>, run in a state that has moved on.
\<close>

datatype 'h mgr_op =
    Connect "db_config + string" nat "'h option"
  | Disconnect string bool
  | AddConfig db_config nat
  | RemoveConfig string bool bool
  | UpdateConfig string db_config bool
  | EnsureConnected string nat "'h option"
  | ConnectResumes string 'h
  | DisconnectResumes string

fun mgr_step :: "'h manager \<Rightarrow> 'h mgr_op \<Rightarrow> 'h manager" where
  "mgr_step m (Connect configOrId timestamp driver) = snd (mgr_connect m configOrId timestamp driver)"
| "mgr_step m (Disconnect connectionId close_ok) = mgr_disconnect m connectionId close_ok"
| "mgr_step m (AddConfig config timestamp) = snd (mgr_addConfig m config timestamp)"
| "mgr_step m (RemoveConfig connectionId close_ok write_ok) =
     snd (mgr_removeConfig m connectionId close_ok write_ok)"
| "mgr_step m (UpdateConfig connectionId config close_ok) = snd (mgr_updateConfig m connectionId config close_ok)"
| "mgr_step m (EnsureConnected connectionId timestamp driver) =
     snd (mgr_ensureConnected m connectionId timestamp driver)"
| "mgr_step m (ConnectResumes connectionId connection) =
     m\<lparr>connections := (connections m)(connectionId \<mapsto> connection),
       connectionStatus := (connectionStatus m)(connectionId \<mapsto> True)\<rparr>"
| "mgr_step m (DisconnectResumes connectionId) =
     m\<lparr>connections := (connections m)(connectionId := None),
       connectionStatus := (connectionStatus m)(connectionId \<mapsto> False)\<rparr>"

definition mgr_init :: "'h manager" where
  "mgr_init = \<lparr>connections = Map.empty, connectionStatus = Map.empty, profiles = []\<rparr>"

definition mgr_run :: "'h mgr_op list \<Rightarrow> 'h manager" where
  "mgr_run ops = foldl mgr_step mgr_init ops"

definition registry_inv :: "'h manager \<Rightarrow> bool" where
  "registry_inv m = (\<forall>connectionId. isConnected m connectionId \<longrightarrow> connections m connectionId \<noteq> None)"

section \<open>ConfigManager: the profile store\<close>

text \<open>
  A profile is a JavaScript object, so what a variable or a \<open>Map\<close> entry holds is a
  reference. The store maps references to objects; \<open>{ ...config }\<close> allocates a new object
  with the same fields (all fields of a profile are strings or numbers). The \<open>Map\<close> of the
  manager is an association list in insertion order.
\<close>

type_synonym ref = nat

record store =
  heap :: "ref \<rightharpoonup> db_config"
  next_ref :: ref

record config_manager =
  configs :: "(string \<times> ref) list"
  saved :: "db_config list"

definition alloc :: "store \<Rightarrow> db_config \<Rightarrow> ref \<times> store" where
  "alloc st obj = (next_ref st, st\<lparr>heap := (heap st)(next_ref st \<mapsto> obj), next_ref := Suc (next_ref st)\<rparr>)"

text \<open>\<open>{ ...config }\<close>\<close>

definition spread_copy :: "store \<Rightarrow> ref \<Rightarrow> (ref \<times> store) option" where
  "spread_copy st r = (case heap st r of None \<Rightarrow> None | Some obj \<Rightarrow> Some (alloc st obj))"

text \<open>An assignment to a field of the object behind a reference, by any holder of it.\<close>

definition mutate :: "store \<Rightarrow> ref \<Rightarrow> (db_config \<Rightarrow> db_config) \<Rightarrow> store" where
  "mutate st r f = (case heap st r of None \<Rightarrow> st | Some obj \<Rightarrow> st\<lparr>heap := (heap st)(r \<mapsto> f obj)\<rparr>)"

text \<open>\<open>saveConfigs\<close> writes the values of the map; a failed write leaves the file.\<close>

definition saveConfigs :: "config_manager \<Rightarrow> store \<Rightarrow> bool \<Rightarrow> config_manager" where
  "saveConfigs cm st write_ok =
     (if write_ok then cm\<lparr>saved := List.map_filter (\<lambda>(k, r). heap st r) (configs cm)\<rparr> else cm)"

definition addConfig ::
  "config_manager \<Rightarrow> store \<Rightarrow> ref \<Rightarrow> nat \<Rightarrow> bool \<Rightarrow> (string \<times> config_manager \<times> store) option" where
  "addConfig cm st config timestamp write_ok =
     (case heap st config of
        None \<Rightarrow> None
      | Some obj \<Rightarrow>
          (let connectionId = generateConnectionId obj timestamp;
               (copy, st') = alloc st obj;
               cm' = cm\<lparr>configs := obj_set (configs cm) connectionId copy\<rparr>
           in Some (connectionId, saveConfigs cm' st' write_ok, st')))"

definition removeConfig ::
  "config_manager \<Rightarrow> store \<Rightarrow> string \<Rightarrow> bool \<Rightarrow> (config_error + bool) \<times> config_manager" where
  "removeConfig cm st connectionId write_ok =
     (if connectionId \<in> set (obj_keys (configs cm))
      then (if write_ok then Inr True else Inl SaveFailed,
            saveConfigs (cm\<lparr>configs := filter (\<lambda>p. fst p \<noteq> connectionId) (configs cm)\<rparr>) st write_ok)
      else (Inr False, cm))"

definition updateConfig ::
  "config_manager \<Rightarrow> store \<Rightarrow> string \<Rightarrow> ref \<Rightarrow> bool \<Rightarrow> (bool \<times> config_manager \<times> store) option" where
  "updateConfig cm st connectionId config write_ok =
     (if connectionId \<in> set (obj_keys (configs cm)) then
        (case heap st config of
           None \<Rightarrow> None
         | Some obj \<Rightarrow>
             (let (copy, st') = alloc st obj;
                  cm' = cm\<lparr>configs := obj_set (configs cm) connectionId copy\<rparr>
              in Some (True, saveConfigs cm' st' write_ok, st')))
      else Some (False, cm, st))"

definition getConfig :: "config_manager \<Rightarrow> store \<Rightarrow> string \<Rightarrow> ref option \<times> store" where
  "getConfig cm st connectionId =
     (case map_of (configs cm) connectionId of
        None \<Rightarrow> (None, st)
      | Some r \<Rightarrow>
          (case spread_copy st r of
             None \<Rightarrow> (None, st)
           | Some (copy, st') \<Rightarrow> (Some copy, st')))"

fun copy_all :: "(string \<times> ref) list \<Rightarrow> store \<Rightarrow> (string \<times> ref) list \<times> store" where
  "copy_all [] st = ([], st)"
| "copy_all ((k, r) # rest) st =
     (case spread_copy st r of
        None \<Rightarrow> copy_all rest st
      | Some (copy, st') \<Rightarrow> (let (out, st'') = copy_all rest st' in ((k, copy) # out, st'')))"

definition getAllConfigs :: "config_manager \<Rightarrow> store \<Rightarrow> (string \<times> ref) list \<times> store" where
  "getAllConfigs cm st = copy_all (configs cm) st"

text \<open>The profile the manager holds for an id: the object behind the stored reference.\<close>

definition stored_profile :: "config_manager \<Rightarrow> store \<Rightarrow> string \<Rightarrow> db_config option" where
  "stored_profile cm st connectionId =
     (case map_of (configs cm) connectionId of None \<Rightarrow> None | Some r \<Rightarrow> heap st r)"

text \<open>
  Every stored reference has been allocated. The references the manager stores are made
  by \<open>alloc\<close> inside its own methods and never returned, so no caller holds one:
  \<open>foreign cm r\<close> says that \<open>r\<close> is an allocated reference that is not a stored one.
\<close>

definition cm_wf :: "config_manager \<Rightarrow> store \<Rightarrow> bool" where
  "cm_wf cm st = list_all (\<lambda>(k, r). r < next_ref st \<and> heap st r \<noteq> None) (configs cm)"

definition foreign :: "config_manager \<Rightarrow> store \<Rightarrow> ref \<Rightarrow> bool" where
  "foreign cm st r = (r < next_ref st \<and> r \<notin> set (map snd (configs cm)))"

text \<open>A small state: the caller's object at reference 0, the manager's copy at 1.\<close>

definition demo_profile :: db_config where
  "demo_profile = \<lparr>cfg_type = SQLite, cfg_alias = ''demo'', host = None, port = None,
     username = None, password = None, database = None, filename = Some ''demo.db'',
     connectionString = None, sid = None, serviceName = None\<rparr>"

definition demo_store :: store where
  "demo_store = \<lparr>heap = [0 \<mapsto> demo_profile, 1 \<mapsto> demo_profile], next_ref = 2\<rparr>"

definition demo_cm :: config_manager where
  "demo_cm = \<lparr>configs = [(''demo-id'', 1)], saved = [demo_profile]\<rparr>"

definition rename_host :: "db_config \<Rightarrow> db_config" where
  "rename_host c = c\<lparr>host := Some ''elsewhere''\<rparr>"

section \<open>The save handler of the table preview (extension.ts)\<close>

text \<open>
  The handler of the \<open>saveChanges\<close> message receives the three parts of the edit batch,
  fetches the rows again as \<open>originalData\<close>, builds \<open>changes\<close> and sends one statement per
  change to the backend. Values in a row are \<open>null\<close>, strings or integers (a document
  identifier of the document store is represented by its text); lookups through the
  prototype chain of an object are left out.
\<close>

record save_message =
  modifiedData :: "(string \<times> jsobj) list"
  deletedRows :: "string list"
  newRows :: "string list"

record delete_op =
  del_primaryKeyData :: jsobj
  del_rowData :: jsobj

record update_op =
  upd_primaryKeyData :: jsobj
  upd_updateData :: jsobj

text \<open>\<open>originalData[index] = row\<close> for each fetched row, and \<open>originalData[rowId]\<close>.\<close>

definition original_row :: "jsobj list \<Rightarrow> string \<Rightarrow> jsobj option" where
  "original_row originalData rowId =
     map_of (zip (map string_of_nat [0..<length originalData]) originalData) rowId"

definition pk_data :: "string list \<Rightarrow> jsobj \<Rightarrow> jsobj" where
  "pk_data primaryKeys row = foldl (\<lambda>acc pk. obj_set acc pk (obj_get row pk)) [] primaryKeys"

definition build_deletes :: "string list \<Rightarrow> jsobj list \<Rightarrow> save_message \<Rightarrow> delete_op list" where
  "build_deletes primaryKeys originalData message =
     List.map_filter (\<lambda>rowId.
        case original_row originalData rowId of
          None \<Rightarrow> None
        | Some row \<Rightarrow> Some \<lparr>del_primaryKeyData = pk_data primaryKeys row, del_rowData = row\<rparr>)
       (deletedRows message)"

definition build_updates :: "string list \<Rightarrow> jsobj list \<Rightarrow> save_message \<Rightarrow> update_op list" where
  "build_updates primaryKeys originalData message =
     List.map_filter (\<lambda>(rowId, updateData).
        if rowId \<in> set (newRows message) then None
        else Some \<lparr>upd_primaryKeyData =
                     (case original_row originalData rowId of
                        None \<Rightarrow> []
                      | Some row \<Rightarrow> pk_data primaryKeys row),
                   upd_updateData = updateData\<rparr>)
       (modifiedData message)"

definition build_inserts :: "save_message \<Rightarrow> jsobj list" where
  "build_inserts message =
     List.map_filter (\<lambda>rowId. map_of (modifiedData message) rowId) (newRows message)"

subsection \<open>Statement text\<close>

definition escape_quotes :: "string \<Rightarrow> string" where
  "escape_quotes s = concat (map (\<lambda>c. if c = CHR 0x27 then [CHR 0x27, CHR 0x27] else [c]) s)"

fun js_to_string :: "jsval \<Rightarrow> string" where
  "js_to_string JUndefined = ''undefined''"
| "js_to_string JNull = ''null''"
| "js_to_string (JStr s) = s"
| "js_to_string (JNum n) = string_of_int n"

text \<open>\<open>typeof value === 'string' ? "'" + value.replace(/'/g, "''") + "'" : value\<close>\<close>

fun sql_escaped :: "jsval \<Rightarrow> string" where
  "sql_escaped (JStr s) = [CHR 0x27] @ escape_quotes s @ [CHR 0x27]"
| "sql_escaped v = js_to_string v"

text \<open>\<open>typeof value === 'string' ? "'" + value + "'" : value\<close>\<close>

fun sql_plain :: "jsval \<Rightarrow> string" where
  "sql_plain (JStr s) = [CHR 0x27] @ s @ [CHR 0x27]"
| "sql_plain v = js_to_string v"

definition null_like :: "jsval \<Rightarrow> bool" where
  "null_like value = (value = JNull \<or> value = JStr ''NULL'' \<or> value = JStr [])"

definition delete_condition :: "string \<times> jsval \<Rightarrow> string" where
  "delete_condition e =
     (case e of (column, value) \<Rightarrow>
        if null_like value then column @ '' IS NULL''
        else column @ '' = '' @ sql_escaped value)"

definition delete_where :: "jsobj \<Rightarrow> string" where
  "delete_where row = join '' AND '' (filter (\<lambda>condition. condition \<noteq> []) (map delete_condition row))"

text \<open>
  \<open>message.deletedRows.find(id => Object.entries(deleteOp.primaryKeyData).some(...))\<close>:
  the first deleted row id whose original row agrees with the operation in some
  primary-key column.
\<close>

definition find_deleted_row :: "jsobj list \<Rightarrow> string list \<Rightarrow> delete_op \<Rightarrow> string option" where
  "find_deleted_row originalData deleted deleteOp =
     List.find (\<lambda>rowId.
        list_ex (\<lambda>(key, value).
           case original_row originalData rowId of
             None \<Rightarrow> False
           | Some row \<Rightarrow> obj_get row key = value)
          (del_primaryKeyData deleteOp))
       deleted"

definition delete_query :: "string \<Rightarrow> jsobj list \<Rightarrow> string list \<Rightarrow> delete_op \<Rightarrow> string option" where
  "delete_query tableName originalData deleted deleteOp =
     (case find_deleted_row originalData deleted deleteOp of
        None \<Rightarrow> None
      | Some rowId \<Rightarrow>
          (if rowId = [] then None
           else case original_row originalData rowId of
             None \<Rightarrow> None
           | Some row \<Rightarrow>
               (let whereConditions = delete_where row in
                if whereConditions = [] then None
                else Some (''DELETE FROM '' @ tableName @ '' WHERE '' @ whereConditions))))"

definition update_condition :: "string list \<Rightarrow> string \<times> jsval \<Rightarrow> string" where
  "update_condition primaryKeys e =
     (case e of (column, value) \<Rightarrow>
        if column \<in> set primaryKeys then column @ '' = '' @ sql_plain value
        else if null_like value then column @ '' IS NULL''
        else column @ '' = '' @ sql_plain value)"

definition update_assignment :: "string list \<Rightarrow> string \<times> jsval \<Rightarrow> string" where
  "update_assignment primaryKeys e =
     (case e of (column, value) \<Rightarrow>
        if column \<in> set primaryKeys then column @ '' = '' @ sql_plain value
        else if value = JNull then column @ '' = NULL''
        else column @ '' = '' @ sql_plain value)"

definition update_query :: "string \<Rightarrow> string list \<Rightarrow> update_op \<Rightarrow> string" where
  "update_query tableName primaryKeys updateOp =
     (let whereConditions =
            join '' AND '' (filter (\<lambda>condition. condition \<noteq> [])
              (map (update_condition primaryKeys) (upd_primaryKeyData updateOp)));
          setValues = join '', '' (map (update_assignment primaryKeys) (upd_updateData updateOp))
      in ''UPDATE '' @ tableName @ '' SET '' @ setValues @ '' WHERE '' @ whereConditions)"

text \<open>
  The test on a primary-key value of an inserted row: not \<open>undefined\<close>, not \<open>null\<close>, not
  \<open>'NULL'\<close>, and \<open>value.toString().trim() !== ''\<close>.
\<close>

definition has_value :: "jsval \<Rightarrow> bool" where
  "has_value value =
     (value \<noteq> JUndefined \<and> value \<noteq> JNull \<and> value \<noteq> JStr ''NULL''
      \<and> js_trim (js_to_string value) \<noteq> [])"

definition insert_columns :: "string list \<Rightarrow> jsobj \<Rightarrow> string list" where
  "insert_columns primaryKeys insertData =
     filter (\<lambda>col. if col \<in> set primaryKeys then has_value (obj_get insertData col) else True)
       (obj_keys insertData)"

text \<open>
  An entry of \<open>values\<close> that is not a string stays as it is until \<open>values.join(', ')\<close>
  turns it into text; \<open>join\<close> writes \<open>undefined\<close> as the empty string.
\<close>

definition insert_value :: "jsobj \<Rightarrow> string \<Rightarrow> string" where
  "insert_value insertData column =
     (let value = obj_get insertData column in
      if null_like value then ''NULL''
      else if value = JUndefined then []
      else sql_escaped value)"

definition insert_query :: "string \<Rightarrow> string list \<Rightarrow> jsobj \<Rightarrow> string" where
  "insert_query tableName primaryKeys insertData =
     (let columns = insert_columns primaryKeys insertData;
          values = map (insert_value insertData) columns
      in if columns \<noteq> []
         then ''INSERT INTO '' @ tableName @ '' ('' @ join '', '' columns @ '') VALUES (''
                @ join '', '' values @ '')''
         else ''INSERT INTO '' @ tableName @ '' DEFAULT VALUES'')"

subsection \<open>Operations on a document store\<close>

definition non_empty :: "jsval \<Rightarrow> bool" where
  "non_empty value = (value \<noteq> JNull \<and> value \<noteq> JUndefined \<and> value \<noteq> JStr [])"

definition mongo_filter :: "jsobj \<Rightarrow> jsobj" where
  "mongo_filter source =
     (if \<not> js_falsy (obj_get source ''_id'') then [(''_id'', obj_get source ''_id'')]
      else foldl (\<lambda>acc (key, value). if non_empty value then obj_set acc key value else acc) [] source)"

subsection \<open>Calls to the backend\<close>

datatype backend_call =
    ExecuteQuery string
  | MongoFind string
  | MongoDeleteOne string jsobj
  | MongoUpdateOne string jsobj jsobj
  | MongoInsertOne string jsobj

definition select_all :: "string \<Rightarrow> string" where
  "select_all tableName = ''SELECT * FROM '' @ tableName @ '' LIMIT 1000''"

definition fetch_call :: "bool \<Rightarrow> string \<Rightarrow> backend_call" where
  "fetch_call is_mongo tableName =
     (if is_mongo then MongoFind tableName else ExecuteQuery (select_all tableName))"

definition delete_calls :: "bool \<Rightarrow> string \<Rightarrow> string list \<Rightarrow> jsobj list \<Rightarrow> save_message \<Rightarrow> backend_call list" where
  "delete_calls is_mongo tableName primaryKeys originalData message =
     (let deletes = build_deletes primaryKeys originalData message in
      if is_mongo
      then map (\<lambda>deleteOp. MongoDeleteOne tableName (mongo_filter (del_rowData deleteOp))) deletes
      else map ExecuteQuery
             (List.map_filter (delete_query tableName originalData (deletedRows message)) deletes))"

definition update_calls :: "bool \<Rightarrow> string \<Rightarrow> string list \<Rightarrow> jsobj list \<Rightarrow> save_message \<Rightarrow> backend_call list" where
  "update_calls is_mongo tableName primaryKeys originalData message =
     (let updates = build_updates primaryKeys originalData message in
      if is_mongo
      then map (\<lambda>updateOp. MongoUpdateOne tableName (mongo_filter (upd_primaryKeyData updateOp))
                  (upd_updateData updateOp)) updates
      else map (\<lambda>updateOp. ExecuteQuery (update_query tableName primaryKeys updateOp)) updates)"

definition insert_calls :: "bool \<Rightarrow> string \<Rightarrow> string list \<Rightarrow> save_message \<Rightarrow> backend_call list" where
  "insert_calls is_mongo tableName primaryKeys message =
     (let inserts = build_inserts message in
      if is_mongo
      then map (MongoInsertOne tableName) inserts
      else map (\<lambda>insertData. ExecuteQuery (insert_query tableName primaryKeys insertData)) inserts)"

text \<open>
  The backend is the environment: it answers a call in a state with rows and a new state,
  or throws (\<open>None\<close>). A sequence of calls stops at the first that throws; the calls sent
  so far, the failing one included, are the trace.
\<close>

fun run_calls ::
  "('db \<Rightarrow> backend_call \<Rightarrow> (jsobj list \<times> 'db) option) \<Rightarrow> 'db \<Rightarrow> backend_call list
     \<Rightarrow> backend_call list \<times> 'db \<times> bool" where
  "run_calls respond db [] = ([], db, True)"
| "run_calls respond db (c # cs) =
     (case respond db c of
        None \<Rightarrow> ([c], db, False)
      | Some (rows, db') \<Rightarrow>
          (case run_calls respond db' cs of (trace, db'', ok) \<Rightarrow> (c # trace, db'', ok)))"

datatype panel_message = SaveSuccess | UpdateData "jsobj list" | ErrorMessage

record 'db save_outcome =
  calls :: "backend_call list"
  posted :: "panel_message list"
  final_db :: 'db

definition handle_saveChanges ::
  "('db \<Rightarrow> backend_call \<Rightarrow> (jsobj list \<times> 'db) option) \<Rightarrow> bool \<Rightarrow> string \<Rightarrow> string list
     \<Rightarrow> 'db \<Rightarrow> save_message \<Rightarrow> 'db save_outcome" where
  "handle_saveChanges respond is_mongo tableName primaryKeys db message =
     (let fetch = fetch_call is_mongo tableName in
      case respond db fetch of
        None \<Rightarrow> \<lparr>calls = [fetch], posted = [ErrorMessage], final_db = db\<rparr>
      | Some (originalData, db1) \<Rightarrow>
          (let writes = delete_calls is_mongo tableName primaryKeys originalData message
                      @ update_calls is_mongo tableName primaryKeys originalData message
                      @ insert_calls is_mongo tableName primaryKeys message
           in case run_calls respond db1 writes of
                (trace, db2, False) \<Rightarrow>
                  \<lparr>calls = fetch # trace, posted = [ErrorMessage], final_db = db2\<rparr>
              | (trace, db2, True) \<Rightarrow>
                  (case respond db2 fetch of
                     None \<Rightarrow>
                       \<lparr>calls = fetch # trace @ [fetch], posted = [SaveSuccess], final_db = db2\<rparr>
                   | Some (refreshResult, db3) \<Rightarrow>
                       \<lparr>calls = fetch # trace @ [fetch],
                        posted = [SaveSuccess, UpdateData refreshResult], final_db = db3\<rparr>)))"

datatype op_kind = DeleteKind | UpdateKind | InsertKind

text \<open>The kind of a call: by the method for a document store, by the leading keyword of the text otherwise.\<close>

fun call_kind :: "backend_call \<Rightarrow> op_kind option" where
  "call_kind (ExecuteQuery q) =
     (if starts_with q ''DELETE FROM '' then Some DeleteKind
      else if starts_with q ''UPDATE '' then Some UpdateKind
      else if starts_with q ''INSERT INTO '' then Some InsertKind
      else None)"
| "call_kind (MongoFind c) = None"
| "call_kind (MongoDeleteOne c f) = Some DeleteKind"
| "call_kind (MongoUpdateOne c f u) = Some UpdateKind"
| "call_kind (MongoInsertOne c d) = Some InsertKind"

fun kind_rank :: "op_kind \<Rightarrow> nat" where
  "kind_rank DeleteKind = 0"
| "kind_rank UpdateKind = 1"
| "kind_rank InsertKind = 2"

definition write_kinds :: "backend_call list \<Rightarrow> op_kind list" where
  "write_kinds cs = List.map_filter call_kind cs"

section \<open>The edit grid of the table preview (extension.ts)\<close>

text \<open>
  The script of the preview page keeps \<open>modifiedData\<close> (row id to the changed cells, as
  text), \<open>deletedRows\<close> and \<open>newRows\<close>. The rows of the page with class \<open>new-row\<close> are
  given with their \<open>data-id\<close> and the text of their cells. An error of \<open>validateData\<close> is
  represented by the name of the offending column.
\<close>

record column_meta =
  col_name :: string
  notNull :: bool
  isPrimaryKey :: bool

type_synonym cells = "(string \<times> string) list"

record grid =
  g_modifiedData :: "(string \<times> cells) list"
  g_deletedRows :: "string list"
  g_newRows :: "string list"
  g_newRowElements :: "(string \<times> cells) list"
  g_columnsMetadata :: "column_meta list"
  g_primaryKeys :: "string list"

text \<open>\<open>!data[c] || data[c] === 'NULL' || data[c].trim() === ''\<close>\<close>

fun blank :: "string option \<Rightarrow> bool" where
  "blank None = True"
| "blank (Some s) = (s = [] \<or> s = ''NULL'' \<or> js_trim s = [])"

definition validateData :: "column_meta list \<Rightarrow> string list \<Rightarrow> cells \<Rightarrow> string list" where
  "validateData columnsMetadata primaryKeys data =
     map col_name
       (filter (\<lambda>column. (col_name column \<in> set primaryKeys \<or> notNull column)
                  \<and> blank (map_of data (col_name column)))
          columnsMetadata)"

text \<open>
  The second loop of \<open>saveChanges\<close>: each new row of the page copies the text of its cells
  into \<open>modifiedData\<close> and is validated.
\<close>

fun validate_new_rows ::
  "column_meta list \<Rightarrow> string list \<Rightarrow> (string \<times> cells) list \<Rightarrow> (string \<times> cells) list \<Rightarrow> bool
     \<Rightarrow> (string \<times> cells) list \<times> bool" where
  "validate_new_rows columnsMetadata primaryKeys [] modified hasErrors = (modified, hasErrors)"
| "validate_new_rows columnsMetadata primaryKeys ((rowId, row_cells) # rest) modified hasErrors =
     (let data = foldl (\<lambda>acc (column, content). obj_set acc column content)
                   (case map_of modified rowId of None \<Rightarrow> [] | Some d \<Rightarrow> d) row_cells;
          modified' = obj_set modified rowId data;
          errors = validateData columnsMetadata primaryKeys data
      in validate_new_rows columnsMetadata primaryKeys rest modified' (hasErrors \<or> errors \<noteq> []))"

definition checked_batch :: "grid \<Rightarrow> (string \<times> cells) list \<times> bool" where
  "checked_batch g =
     validate_new_rows (g_columnsMetadata g) (g_primaryKeys g) (g_newRowElements g)
       (g_modifiedData g)
       (list_ex (\<lambda>(rowId, data). validateData (g_columnsMetadata g) (g_primaryKeys g) data \<noteq> [])
          (g_modifiedData g))"

definition as_object :: "cells \<Rightarrow> jsobj" where
  "as_object data = map (\<lambda>(column, content). (column, JStr content)) data"

text \<open>\<open>saveChanges\<close> of the page: the message it posts, if any.\<close>

definition saveChanges :: "grid \<Rightarrow> save_message option" where
  "saveChanges g =
     (case checked_batch g of
        (modified, hasErrors) \<Rightarrow>
          if hasErrors then None
          else Some \<lparr>modifiedData = map (\<lambda>(rowId, data). (rowId, as_object data)) modified,
                      deletedRows = g_deletedRows g,
                      newRows = g_newRows g\<rparr>)"

text \<open>A save cycle: the page validates and posts, the handler executes.\<close>

definition save_cycle ::
  "('db \<Rightarrow> backend_call \<Rightarrow> (jsobj list \<times> 'db) option) \<Rightarrow> bool \<Rightarrow> string \<Rightarrow> 'db \<Rightarrow> grid
     \<Rightarrow> 'db save_outcome" where
  "save_cycle respond is_mongo tableName db g =
     (case saveChanges g of
        None \<Rightarrow> \<lparr>calls = [], posted = [], final_db = db\<rparr>
      | Some message \<Rightarrow>
          handle_saveChanges respond is_mongo tableName (g_primaryKeys g) db message)"

text \<open>The rows of the batch that assign an empty value to a key or not-null column.\<close>

definition empty_value :: "string \<Rightarrow> bool" where
  "empty_value s = (s = [] \<or> s = ''NULL'')"

definition violates :: "grid \<Rightarrow> cells \<Rightarrow> bool" where
  "violates g data =
     list_ex (\<lambda>column. (col_name column \<in> set (g_primaryKeys g) \<or> notNull column)
                \<and> (case map_of data (col_name column) of None \<Rightarrow> False | Some s \<Rightarrow> empty_value s))
       (g_columnsMetadata g)"

text \<open>
  A table \<open>t(name, id)\<close> with key \<open>id\<close> and two rows; a backend that answers a read with
  these rows and counts the writes it receives; a batch that deletes row 0, renames row 1
  and adds a row without a key.
\<close>

definition demo_rows :: "jsobj list" where
  "demo_rows = [[(''name'', JStr ''a''), (''id'', JNum 1)], [(''name'', JStr ''b''), (''id'', JNum 2)]]"

definition demo_respond :: "nat \<Rightarrow> backend_call \<Rightarrow> (jsobj list \<times> nat) option" where
  "demo_respond db c = (case call_kind c of None \<Rightarrow> Some (demo_rows, db) | Some k \<Rightarrow> Some ([], Suc db))"

definition demo_message :: save_message where
  "demo_message = \<lparr>modifiedData = [(''1'', [(''name'', JStr ''c'')]),
                                    (''new-1'', [(''name'', JStr ''d''), (''id'', JStr [])])],
                    deletedRows = [''0''], newRows = [''new-1'']\<rparr>"

text \<open>
  A page on the example table: row 1 edited to an empty name, row 0 deleted, one new row;
  and the same page without any edit.
\<close>

definition demo_grid :: grid where
  "demo_grid = \<lparr>g_modifiedData = [(''1'', [(''name'', [])])], g_deletedRows = [''0''],
     g_newRows = [''new-1''],
     g_newRowElements = [(''new-1'', [(''name'', ''d''), (''id'', [])])],
     g_columnsMetadata = [\<lparr>col_name = ''name'', notNull = True, isPrimaryKey = False\<rparr>,
                          \<lparr>col_name = ''id'', notNull = False, isPrimaryKey = True\<rparr>],
     g_primaryKeys = [''id'']\<rparr>"

definition untouched_grid :: grid where
  "untouched_grid = demo_grid\<lparr>g_modifiedData := [], g_deletedRows := [], g_newRows := [],
     g_newRowElements := []\<rparr>"

section \<open>DatabaseManager.executeQuery on a document store\<close>

text \<open>
  For a \<open>MongoClient\<close> handle the query is a command text such as
  \<open>db.users.find({"age": 3})\<close>. It is trimmed, its runs of whitespace are replaced by one
  space, the collection and the operation are found by a regular expression, the text
  between the parentheses is cut into arguments and each is given to \<open>JSON.parse\<close>.
  \<open>JSON.parse\<close> belongs to the runtime: it is a parameter that returns the parsed value or
  fails.
\<close>

datatype json =
    JsonNull | JsonBool bool | JsonNum int | JsonStr string
  | JsonArray "json list" | JsonObject "(string \<times> json) list"

fun json_falsy :: "json \<Rightarrow> bool" where
  "json_falsy JsonNull = True"
| "json_falsy (JsonBool b) = (\<not> b)"
| "json_falsy (JsonNum n) = (n = 0)"
| "json_falsy (JsonStr s) = (s = [])"
| "json_falsy (JsonArray xs) = False"
| "json_falsy (JsonObject kvs) = False"








definition supportedOperations :: "string list" where
  "supportedOperations =
     [''find'', ''insertOne'', ''insertMany'', ''updateOne'', ''updateMany'', ''deleteOne'', ''deleteMany'']"








datatype mongo_operation =
    Find string json json
  | InsertOne string json
  | InsertMany string json
  | UpdateOne string json json
  | UpdateMany string json json
  | DeleteOne string json
  | DeleteMany string json

datatype mongo_error = InvalidQuery | UnsupportedOperation string

text \<open>\<open>params[i] || dflt\<close>\<close>

definition param_or :: "json list \<Rightarrow> nat \<Rightarrow> json \<Rightarrow> json" where
  "param_or params i dflt =
     (if i < length params \<and> \<not> json_falsy (params ! i) then params ! i else dflt)"

definition dispatch :: "string \<Rightarrow> string \<Rightarrow> json list \<Rightarrow> mongo_error + mongo_operation" where
  "dispatch collectionName operation params =
     (if operation = ''find''
      then Inr (Find collectionName (param_or params 0 (JsonObject [])) (param_or params 1 (JsonObject [])))
      else if operation = ''insertOne''
      then Inr (InsertOne collectionName (param_or params 0 (JsonObject [])))
      else if operation = ''insertMany''
      then Inr (InsertMany collectionName (param_or params 0 (JsonArray [])))
      else if operation = ''updateOne''
      then Inr (UpdateOne collectionName (param_or params 0 (JsonObject [])) (param_or params 1 (JsonObject [])))
      else if operation = ''updateMany''
      then Inr (UpdateMany collectionName (param_or params 0 (JsonObject [])) (param_or params 1 (JsonObject [])))
      else if operation = ''deleteOne''
      then Inr (DeleteOne collectionName (param_or params 0 (JsonObject [])))
      else if operation = ''deleteMany''
      then Inr (DeleteMany collectionName (param_or params 0 (JsonObject [])))
      else Inl (UnsupportedOperation operation))"



section \<open>The table preview of part_000\<close>

text \<open>
  This variant of the preview keeps the edits in the page as well, but reads the rows
  from the table of the page when it saves: a row has its \<open>data-row-index\<close>, its
  \<open>data-row-id\<close> (the \<open>__rowid\<close> of the fetch, or the index) and its cells.
  \<open>modifiedData\<close> is a \<open>Map\<close> from row index to a \<open>Map\<close> from column to the new value (a
  string or \<open>null\<close>), \<open>deletedRows\<close> a \<open>Set\<close> of strings, \<open>newRows\<close> a \<open>Set\<close> of numbers.
\<close>

record dom_cell =
  cell_column :: string
  cell_text :: string
  cell_editable :: bool
  cell_isPk :: bool

record dom_row =
  row_index :: string
  row_id :: "string option"
  row_cells :: "dom_cell list"

record page =
  p_modifiedData :: "(string \<times> jsobj) list"
  p_deletedRows :: "string list"
  p_newRows :: "int list"
  p_rows :: "dom_row list"
  p_columnsMetadata :: "column_meta list"
  p_primaryKeys :: "string list"

text \<open>
  \<open>document.querySelector\<close> for a row by its \<open>data-row-index\<close>, and
  \<open>row.querySelector\<close> for a cell by its \<open>data-column\<close>: the first that matches.
\<close>

definition query_row :: "dom_row list \<Rightarrow> string \<Rightarrow> dom_row option" where
  "query_row rows rowIndex = List.find (\<lambda>row. row_index row = rowIndex) rows"

definition query_cell :: "dom_row \<Rightarrow> string \<Rightarrow> dom_cell option" where
  "query_cell row column = List.find (\<lambda>cell. cell_column cell = column) (row_cells row)"

text \<open>\<open>parseInt\<close> on decimal text (the hexadecimal prefix aside); \<open>None\<close> is \<open>NaN\<close>.\<close>

definition is_digit :: "char \<Rightarrow> bool" where
  "is_digit c = (let n = of_char c :: nat in 48 \<le> n \<and> n \<le> 57)"

definition digits_value :: "string \<Rightarrow> int" where
  "digits_value ds = foldl (\<lambda>acc d. acc * 10 + (int (of_char d) - 48)) 0 ds"

definition parseInt :: "string \<Rightarrow> int option" where
  "parseInt s =
     (let s1 = dropWhile js_whitespace s;
          negative = starts_with s1 ''-'';
          s2 = (if starts_with s1 ''-'' \<or> starts_with s1 ''+'' then drop 1 s1 else s1);
          ds = takeWhile is_digit s2
      in if ds = [] then None
         else Some (if negative then - digits_value ds else digits_value ds))"

definition getRowIdentifier :: "string list \<Rightarrow> dom_row \<Rightarrow> jsobj" where
  "getRowIdentifier primaryKeys row =
     (if primaryKeys \<noteq> [] then
        foldl (\<lambda>identifier key.
                 case query_cell row key of
                   None \<Rightarrow> identifier
                 | Some cell \<Rightarrow>
                     (let value = js_trim (cell_text cell) in
                      obj_set identifier key (JStr (if value = ''NULL'' then [] else value))))
          [] primaryKeys
      else
        foldl (\<lambda>identifier cell.
                 if \<not> cell_editable cell then identifier
                 else (let value = js_trim (cell_text cell) in
                       obj_set identifier (cell_column cell)
                         (if value = ''NULL'' then JNull else JStr value)))
          [(''__rowid'', case row_id row of None \<Rightarrow> JUndefined | Some rowId \<Rightarrow> JStr rowId)]
          (row_cells row))"

definition validateData0 :: "column_meta list \<Rightarrow> jsobj \<Rightarrow> string list" where
  "validateData0 columnsMetadata data =
     map col_name
       (filter (\<lambda>col. (isPrimaryKey col \<or> notNull col)
                  \<and> (let value = obj_get data (col_name col) in
                       value = JUndefined \<or> value = JNull \<or> js_trim (js_to_string value) = []
                       \<or> value = JStr ''NULL''))
          columnsMetadata)"

definition column_notNull :: "column_meta list \<Rightarrow> string \<Rightarrow> bool" where
  "column_notNull columnsMetadata column =
     (case List.find (\<lambda>col. col_name col = column) columnsMetadata of
        None \<Rightarrow> False | Some columnMeta \<Rightarrow> notNull columnMeta)"

text \<open>The \<open>updateData\<close> of a modified row and the \<open>insertData\<close> of a new row.\<close>

definition update_data :: "column_meta list \<Rightarrow> dom_row \<Rightarrow> jsobj \<Rightarrow> jsobj" where
  "update_data columnsMetadata row columns =
     foldl (\<lambda>updateData (column, value).
              if (case query_cell row column of None \<Rightarrow> False | Some cell \<Rightarrow> cell_isPk cell)
                 \<or> column_notNull columnsMetadata column
              then obj_set updateData column value
              else obj_set updateData column
                     (if js_falsy value \<or> value = JStr ''NULL'' then JNull else value))
       [] columns"

definition insert_data :: "column_meta list \<Rightarrow> dom_row \<Rightarrow> jsobj" where
  "insert_data columnsMetadata row =
     foldl (\<lambda>insertData cell.
              if \<not> cell_editable cell then insertData
              else (let column = cell_column cell; value = js_trim (cell_text cell) in
                    if cell_isPk cell \<or> column_notNull columnsMetadata column
                    then obj_set insertData column (JStr value)
                    else obj_set insertData column
                           (if value = [] \<or> value = ''NULL'' then JNull else JStr value)))
       [] (row_cells row)"

text \<open>
  The modified rows that are saved as updates: not a new row, present in the page, and
  not deleted. The last test asks the set of strings \<open>deletedRows\<close> for a number, which it
  never holds.
\<close>

definition updated_rows :: "page \<Rightarrow> (dom_row \<times> jsobj) list" where
  "updated_rows p =
     List.map_filter (\<lambda>(rowIndex, columns).
        if (case parseInt rowIndex of None \<Rightarrow> False | Some n \<Rightarrow> n \<in> set (p_newRows p)) then None
        else case query_row (p_rows p) rowIndex of
               None \<Rightarrow> None
             | Some row \<Rightarrow> Some (row, update_data (p_columnsMetadata p) row columns))
       (p_modifiedData p)"

definition inserted_rows :: "page \<Rightarrow> jsobj list" where
  "inserted_rows p =
     List.map_filter (\<lambda>rowIndex.
        case query_row (p_rows p) (string_of_int rowIndex) of
          None \<Rightarrow> None
        | Some row \<Rightarrow> Some (insert_data (p_columnsMetadata p) row))
       (p_newRows p)"

record changes =
  ch_updates :: "update_op list"
  ch_deletes :: "jsobj list"
  ch_inserts :: "jsobj list"

definition saveChanges0 :: "page \<Rightarrow> changes option" where
  "saveChanges0 p =
     (if p_modifiedData p = [] \<and> p_deletedRows p = [] \<and> p_newRows p = [] then None
      else if list_ex (\<lambda>(row, updateData). validateData0 (p_columnsMetadata p) updateData \<noteq> [])
                (updated_rows p)
              \<or> list_ex (\<lambda>insertData. validateData0 (p_columnsMetadata p) insertData \<noteq> [])
                   (inserted_rows p)
      then None
      else Some
        \<lparr>ch_updates = map (\<lambda>(row, updateData).
                          \<lparr>upd_primaryKeyData = getRowIdentifier (p_primaryKeys p) row,
                           upd_updateData = updateData\<rparr>) (updated_rows p),
         ch_deletes = List.map_filter (\<lambda>rowIndex.
                          map_option (getRowIdentifier (p_primaryKeys p)) (query_row (p_rows p) rowIndex))
                        (p_deletedRows p),
         ch_inserts = inserted_rows p\<rparr>)"

text \<open>
  The message travels as JSON: a property whose value is \<open>undefined\<close> is not written.
\<close>

definition as_json :: "jsobj \<Rightarrow> jsobj" where
  "as_json obj = filter (\<lambda>(key, value). value \<noteq> JUndefined) obj"

definition received :: "changes \<Rightarrow> changes" where
  "received ch =
     \<lparr>ch_updates = map (\<lambda>u. \<lparr>upd_primaryKeyData = as_json (upd_primaryKeyData u),
                              upd_updateData = as_json (upd_updateData u)\<rparr>) (ch_updates ch),
      ch_deletes = map as_json (ch_deletes ch),
      ch_inserts = map as_json (ch_inserts ch)\<rparr>"

subsection \<open>The handler of part_000\<close>

definition plain_condition :: "string \<times> jsval \<Rightarrow> string" where
  "plain_condition e =
     (case e of (column, value) \<Rightarrow>
        if null_like value then column @ '' IS NULL''
        else column @ '' = '' @ sql_plain value)"

definition delete_query0 :: "string \<Rightarrow> jsobj \<Rightarrow> string option" where
  "delete_query0 tableName primaryKeyData =
     (let whereConditions =
            join '' AND '' (filter (\<lambda>condition. condition \<noteq> []) (map plain_condition primaryKeyData))
      in if whereConditions = [] then None
         else Some (''DELETE FROM '' @ tableName @ '' WHERE '' @ whereConditions))"

text \<open>
  An entry of \<open>values\<close> that is not a string is written by \<open>values.join(', ')\<close>, which
  writes \<open>null\<close> and \<open>undefined\<close> as the empty string.
\<close>

fun joined_text :: "jsval \<Rightarrow> string" where
  "joined_text (JStr s) = [CHR 0x27] @ s @ [CHR 0x27]"
| "joined_text JNull = []"
| "joined_text JUndefined = []"
| "joined_text (JNum n) = string_of_int n"

definition insert_value0 :: "string list \<Rightarrow> string \<times> jsval \<Rightarrow> string" where
  "insert_value0 primaryKeys e =
     (case e of (column, value) \<Rightarrow>
        if column \<in> set primaryKeys then joined_text value
        else if value = JNull then ''NULL''
        else joined_text value)"

definition insert_query0 :: "string \<Rightarrow> string list \<Rightarrow> jsobj \<Rightarrow> string" where
  "insert_query0 tableName primaryKeys insertData =
     (let columns = filter (\<lambda>col. col \<noteq> ''id'') (obj_keys insertData);
          values = map (insert_value0 primaryKeys) (filter (\<lambda>(col, value). col \<noteq> ''id'') insertData)
      in if columns \<noteq> []
         then ''INSERT INTO '' @ tableName @ '' ('' @ join '', '' columns @ '') VALUES (''
                @ join '', '' values @ '')''
         else ''INSERT INTO '' @ tableName @ '' DEFAULT VALUES'')"

definition write_calls0 :: "string \<Rightarrow> string list \<Rightarrow> changes \<Rightarrow> backend_call list" where
  "write_calls0 tableName primaryKeys ch =
     map ExecuteQuery
       (List.map_filter (delete_query0 tableName) (ch_deletes ch)
        @ map (update_query tableName primaryKeys) (ch_updates ch)
        @ map (insert_query0 tableName primaryKeys) (ch_inserts ch))"

definition handle_saveChanges0 ::
  "('db \<Rightarrow> backend_call \<Rightarrow> (jsobj list \<times> 'db) option) \<Rightarrow> string \<Rightarrow> string list
     \<Rightarrow> 'db \<Rightarrow> changes \<Rightarrow> 'db save_outcome" where
  "handle_saveChanges0 respond tableName primaryKeys db ch =
     (case run_calls respond db (write_calls0 tableName primaryKeys ch) of
        (trace, db1, False) \<Rightarrow> \<lparr>calls = trace, posted = [ErrorMessage], final_db = db1\<rparr>
      | (trace, db1, True) \<Rightarrow>
          (case respond db1 (ExecuteQuery (select_all tableName)) of
             None \<Rightarrow>
               \<lparr>calls = trace @ [ExecuteQuery (select_all tableName)],
                posted = [SaveSuccess, ErrorMessage], final_db = db1\<rparr>
           | Some (result, db2) \<Rightarrow>
               \<lparr>calls = trace @ [ExecuteQuery (select_all tableName)],
                posted = [SaveSuccess, UpdateData result], final_db = db2\<rparr>))"

definition save_cycle0 ::
  "('db \<Rightarrow> backend_call \<Rightarrow> (jsobj list \<times> 'db) option) \<Rightarrow> string \<Rightarrow> 'db \<Rightarrow> page
     \<Rightarrow> 'db save_outcome" where
  "save_cycle0 respond tableName db p =
     (case saveChanges0 p of
        None \<Rightarrow> \<lparr>calls = [], posted = [], final_db = db\<rparr>
      | Some ch \<Rightarrow> handle_saveChanges0 respond tableName (p_primaryKeys p) db (received ch))"

text \<open>
  A page on a table \<open>t(name, email)\<close> without primary key, fetched with \<open>__rowid\<close>: one
  row, marked as deleted.
\<close>

definition keyless_page :: page where
  "keyless_page =
     \<lparr>p_modifiedData = [], p_deletedRows = [''1''], p_newRows = [],
      p_rows = [\<lparr>row_index = ''1'', row_id = Some ''1'',
                 row_cells = [\<lparr>cell_column = ''name'', cell_text = ''a'', cell_editable = True, cell_isPk = False\<rparr>,
                              \<lparr>cell_column = ''email'', cell_text = ''NULL'', cell_editable = True, cell_isPk = False\<rparr>,
                              \<lparr>cell_column = [], cell_text = [], cell_editable = False, cell_isPk = False\<rparr>]\<rparr>],
      p_columnsMetadata = [\<lparr>col_name = ''name'', notNull = False, isPrimaryKey = False\<rparr>,
                           \<lparr>col_name = ''email'', notNull = False, isPrimaryKey = False\<rparr>],
      p_primaryKeys = []\<rparr>"

definition untouched_page :: page where
  "untouched_page = keyless_page\<lparr>p_deletedRows := []\<rparr>"

text \<open>
  A page of part_000 on a table \<open>users(id, name, email)\<close> with key \<open>id\<close>: one new row, in
  which the user has typed the key \<open>7\<close> and the name \<open>Ann\<close>.
\<close>

definition insert_page :: page where
  "insert_page =
     \<lparr>p_modifiedData = [], p_deletedRows = [], p_newRows = [1],
      p_rows = [\<lparr>row_index = ''1'', row_id = None,
                 row_cells = [\<lparr>cell_column = ''id'', cell_text = ''7'', cell_editable = True, cell_isPk = True\<rparr>,
                              \<lparr>cell_column = ''name'', cell_text = ''Ann'', cell_editable = True, cell_isPk = False\<rparr>,
                              \<lparr>cell_column = ''email'', cell_text = ''NULL'', cell_editable = True, cell_isPk = False\<rparr>,
                              \<lparr>cell_column = [], cell_text = [], cell_editable = False, cell_isPk = False\<rparr>]\<rparr>],
      p_columnsMetadata = [\<lparr>col_name = ''id'', notNull = True, isPrimaryKey = True\<rparr>,
                           \<lparr>col_name = ''name'', notNull = True, isPrimaryKey = False\<rparr>,
                           \<lparr>col_name = ''email'', notNull = False, isPrimaryKey = False\<rparr>],
      p_primaryKeys = [''id'']\<rparr>"

section \<open>The registry and the service against the same driver\<close>





section \<open>What a dispatched operation is\<close>




section \<open>Properties of the retry loop\<close>

lemma attempts_made_append: "attempts_made (xs @ ys) = attempts_made xs @ attempts_made ys"
  by (induction xs rule: attempts_made.induct) auto

lemma sleeps_append: "sleeps (xs @ ys) = sleeps xs @ sleeps ys"
  by (induction xs rule: sleeps.induct) auto

lemma connect_loop_last:
  "connect_loop driver config 3 log =
     (case try_connect driver config 3 of
        (Some h, reached) \<Rightarrow>
          \<lparr>returned = True, stored = Some h,
           events = log @ Attempt 3 # (if reached then [DriverConnect 3] else [])\<rparr>
      | (None, reached) \<Rightarrow>
          \<lparr>returned = False, stored = None,
           events = log @ Attempt 3 # (if reached then [DriverConnect 3] else []) @ [ShowError 3]\<rparr>)"
  by (subst connect_loop.simps) (simp add: maxRetries_def split: prod.splits option.splits)

lemma connect_loop_second:
  "connect_loop driver config 2 log =
     (case try_connect driver config 2 of
        (Some h, reached) \<Rightarrow>
          \<lparr>returned = True, stored = Some h,
           events = log @ Attempt 2 # (if reached then [DriverConnect 2] else [])\<rparr>
      | (None, reached) \<Rightarrow>
          connect_loop driver config 3
            (log @ Attempt 2 # (if reached then [DriverConnect 2] else [])
               @ [ShowWarning 2, Sleep retryDelay]))"
  by (subst connect_loop.simps) (simp add: maxRetries_def split: prod.splits option.splits)

lemma connect_loop_first:
  "connect_loop driver config 1 log =
     (case try_connect driver config 1 of
        (Some h, reached) \<Rightarrow>
          \<lparr>returned = True, stored = Some h,
           events = log @ Attempt 1 # (if reached then [DriverConnect 1] else [])\<rparr>
      | (None, reached) \<Rightarrow>
          connect_loop driver config 2
            (log @ Attempt 1 # (if reached then [DriverConnect 1] else [])
               @ [ShowWarning 1, Sleep retryDelay]))"
  by (subst connect_loop.simps) (simp add: maxRetries_def numeral_2_eq_2 split: prod.splits option.splits)

text \<open>
  \<open>DatabaseServiceImpl.connect\<close> tries at most three times, attempts 1, 2, 3 in order and
  stopping at the first that succeeds; between two attempts it waits the fixed delay of
  1000 ms; it returns \<open>false\<close> exactly when all three attempts failed; and
  \<open>executeQuery\<close> reaches the driver at most once, whatever the driver answers.
\<close>

lemma svc_connect_bounded_retry:
  "attempts_made (events (svc_connect driver config)) =
     (if \<not> attempt_fails driver config 1 then [1]
      else if \<not> attempt_fails driver config 2 then [1, 2] else [1, 2, 3])
   \<and> sleeps (events (svc_connect driver config)) =
       replicate (length (attempts_made (events (svc_connect driver config))) - 1) retryDelay
   \<and> returned (svc_connect driver config) =
       (\<not> (attempt_fails driver config 1 \<and> attempt_fails driver config 2 \<and> attempt_fails driver config 3))
   \<and> length (driver_calls (snd (svc_executeQuery connection qdriver empty_rows query))) \<le> 1"
proof -
  have q: "length (driver_calls (snd (svc_executeQuery connection qdriver empty_rows query))) \<le> 1"
    by (simp add: svc_executeQuery_def split: option.splits handle_kind.splits)
  obtain r1 b1 where t1: "try_connect driver config 1 = (r1, b1)" by (cases "try_connect driver config 1")
  obtain r2 b2 where t2: "try_connect driver config 2 = (r2, b2)" by (cases "try_connect driver config 2")
  obtain r3 b3 where t3: "try_connect driver config 3 = (r3, b3)" by (cases "try_connect driver config 3")
  show ?thesis
    using q unfolding svc_connect_def connect_loop_first connect_loop_second connect_loop_last
      attempt_fails_def t1 t2 t3
    by (cases r1; cases r2; cases r3)
       (simp_all add: attempts_made_append sleeps_append)
qed

lemma svc_connect_bounded_retry_example:
  "attempts_made (events (svc_connect (\<lambda>k. if k = 2 then Some (7::nat) else None)
       \<lparr>cfg_type = MySQL, cfg_alias = ''a'', host = Some ''h'', port = Some 3306,
        username = Some ''u'', password = Some ''p'', database = Some ''d'', filename = None,
        connectionString = None, sid = None, serviceName = None\<rparr>)) = [1, 2]
   \<and> sleeps (events (svc_connect (\<lambda>k. if k = 2 then Some (7::nat) else None)
       \<lparr>cfg_type = MySQL, cfg_alias = ''a'', host = Some ''h'', port = Some 3306,
        username = Some ''u'', password = Some ''p'', database = Some ''d'', filename = None,
        connectionString = None, sid = None, serviceName = None\<rparr>)) = [1000]
   \<and> attempts_made (events (svc_connect (\<lambda>k. None :: nat option)
       \<lparr>cfg_type = MySQL, cfg_alias = ''a'', host = Some ''h'', port = Some 3306,
        username = Some ''u'', password = Some ''p'', database = Some ''d'', filename = None,
        connectionString = None, sid = None, serviceName = None\<rparr>)) = [1, 2, 3]
   \<and> \<not> returned (svc_connect (\<lambda>k. None :: nat option)
       \<lparr>cfg_type = MySQL, cfg_alias = ''a'', host = Some ''h'', port = Some 3306,
        username = Some ''u'', password = Some ''p'', database = Some ''d'', filename = None,
        connectionString = None, sid = None, serviceName = None\<rparr>)"
  using svc_connect_bounded_retry [of "\<lambda>k. if k = 2 then Some (7::nat) else None"
       "\<lparr>cfg_type = MySQL, cfg_alias = ''a'', host = Some ''h'', port = Some 3306,
        username = Some ''u'', password = Some ''p'', database = Some ''d'', filename = None,
        connectionString = None, sid = None, serviceName = None\<rparr>" None "\<lambda>e. None :: nat option" 0 "[]"]
    svc_connect_bounded_retry [of "\<lambda>k. None :: nat option"
       "\<lparr>cfg_type = MySQL, cfg_alias = ''a'', host = Some ''h'', port = Some 3306,
        username = Some ''u'', password = Some ''p'', database = Some ''d'', filename = None,
        connectionString = None, sid = None, serviceName = None\<rparr>" None "\<lambda>e. None :: nat option" 0 "[]"]
  by (simp add: attempt_fails_def try_connect_def retryDelay_def)

section \<open>Where a failed connect is retried\<close>





section \<open>The profile store hands out copies\<close>

lemma stored_profile_mutate:
  "r \<notin> set (map snd (configs cm)) \<Longrightarrow> stored_profile cm (mutate st r f) k = stored_profile cm st k"
  by (auto simp: stored_profile_def mutate_def split: option.splits dest!: map_of_SomeD) force

lemma wf_fresh: "cm_wf cm st \<Longrightarrow> r' \<in> set (map snd (configs cm)) \<Longrightarrow> r' < next_ref st"
  by (auto simp: cm_wf_def list_all_iff)

lemma stored_profile_agree:
  "cm_wf cm st \<Longrightarrow> (\<And>r. r < next_ref st \<Longrightarrow> heap st' r = heap st r) \<Longrightarrow>
   stored_profile cm st' k = stored_profile cm st k"
  by (auto simp: stored_profile_def cm_wf_def list_all_iff split: option.splits dest!: map_of_SomeD)

lemma copy_all_fresh:
  "copy_all ps st = (out, st') \<Longrightarrow>
     next_ref st \<le> next_ref st' \<and> (\<forall>r < next_ref st. heap st' r = heap st r)
     \<and> (\<forall>(k, c) \<in> set out. next_ref st \<le> c)"
proof (induction ps st arbitrary: out st' rule: copy_all.induct)
  case (1 st)
  then show ?case by simp
next
  case (2 k r rest st)
  show ?case
  proof (cases "spread_copy st r")
    case None
    with 2 show ?thesis by simp
  next
    case (Some a)
    obtain c st1 where a: "a = (c, st1)" by (cases a)
    obtain out2 st2 where r: "copy_all rest st1 = (out2, st2)" by (cases "copy_all rest st1")
    from Some a have st1: "next_ref st1 = Suc (next_ref st)" "c = next_ref st"
      "\<forall>r < next_ref st. heap st1 r = heap st r"
      by (auto simp: spread_copy_def alloc_def split: option.splits)
    from "2.IH"(2)[OF Some a[symmetric] r] 
    have ih: "next_ref st1 \<le> next_ref st2" "\<forall>r<next_ref st1. heap st2 r = heap st1 r"
       "\<forall>(k, c)\<in>set out2. next_ref st1 \<le> c" by auto
    from 2(3) Some a r have "out = (k, c) # out2" "st' = st2" by auto
    with st1 ih show ?thesis by auto
  qed
qed


lemma getConfig_fresh:
  "getConfig cm st k0 = (Some copy, st') \<Longrightarrow>
     copy = next_ref st \<and> (\<forall>r < next_ref st. heap st' r = heap st r) \<and> heap st' copy = stored_profile cm st k0"
  by (auto simp: getConfig_def spread_copy_def alloc_def stored_profile_def split: option.splits)

lemma not_stored_if_fresh: "cm_wf cm st \<Longrightarrow> next_ref st \<le> c \<Longrightarrow> c \<notin> set (map snd (configs cm))"
  using wf_fresh by fastforce

lemma map_of_obj_set: "map_of (obj_set ps k v) = (map_of ps)(k \<mapsto> v)"
  by (induction ps k v rule: obj_set.induct) auto

lemma set_obj_set: "set (map snd (obj_set ps k v)) \<subseteq> insert v (set (map snd ps))"
  by (induction ps k v rule: obj_set.induct) auto

lemma configs_saveConfigs [simp]: "configs (saveConfigs cm st w) = configs cm"
  by (simp add: saveConfigs_def)

lemma stored_profile_saveConfigs [simp]: "stored_profile (saveConfigs cm st0 w) st k = stored_profile cm st k"
  by (simp add: stored_profile_def)

lemma addConfig_result:
  "addConfig cm st config ts w = Some (k0, cm', st') \<Longrightarrow>
     \<exists>obj. heap st config = Some obj \<and> k0 = generateConnectionId obj ts
       \<and> configs cm' = obj_set (configs cm) k0 (next_ref st)
       \<and> st' = st\<lparr>heap := (heap st)(next_ref st \<mapsto> obj), next_ref := Suc (next_ref st)\<rparr>"
  by (auto simp: addConfig_def alloc_def Let_def split: option.splits)

lemma updateConfig_result:
  "updateConfig cm st k0 config w = Some (True, cm', st') \<Longrightarrow>
     \<exists>obj. heap st config = Some obj
       \<and> configs cm' = obj_set (configs cm) k0 (next_ref st)
       \<and> st' = st\<lparr>heap := (heap st)(next_ref st \<mapsto> obj), next_ref := Suc (next_ref st)\<rparr>"
  by (auto simp: updateConfig_def alloc_def Let_def split: option.splits if_splits)

lemma stored_after_set:
  assumes "foreign cm st config" "heap st config = Some obj"
    "configs cm' = obj_set (configs cm) k0 (next_ref st)"
    "st' = st\<lparr>heap := (heap st)(next_ref st \<mapsto> obj), next_ref := Suc (next_ref st)\<rparr>"
  shows "stored_profile cm' (mutate st' config f) k = stored_profile cm' st' k"
    and "stored_profile cm' st' k0 = Some obj"
proof -
  have "config \<noteq> next_ref st" using assms(1) by (simp add: foreign_def)
  moreover have "config \<notin> set (map snd (configs cm))" using assms(1) by (simp add: foreign_def)
  ultimately have "config \<notin> set (map snd (configs cm'))"
    using set_obj_set [of "configs cm" k0 "next_ref st"] assms(3) by auto
  then show "stored_profile cm' (mutate st' config f) k = stored_profile cm' st' k"
    by (rule stored_profile_mutate)
  show "stored_profile cm' st' k0 = Some obj"
    by (simp add: stored_profile_def assms(3,4) map_of_obj_set)
qed

text \<open>
  The two conditions of the theorem below hold in every state the methods reach: a
  reference handed out is not a stored one, and \<open>addConfig\<close> keeps both conditions.
\<close>

lemma getConfig_returns_foreign:
  assumes "cm_wf cm st" and "getConfig cm st k0 = (Some copy, st')"
  shows "foreign cm st' copy \<and> cm_wf cm st'"
proof -
  from getConfig_fresh [OF assms(2)] have c: "copy = next_ref st"
    and h: "\<forall>r<next_ref st. heap st' r = heap st r" by auto
  from assms(2) have n: "next_ref st' = Suc (next_ref st)"
    by (auto simp: getConfig_def spread_copy_def alloc_def split: option.splits)
  have "copy \<notin> set (map snd (configs cm))"
    using not_stored_if_fresh [OF assms(1)] c by simp
  with c n have "foreign cm st' copy" by (simp add: foreign_def)
  moreover have "cm_wf cm st'"
    using assms(1) h n by (auto simp: cm_wf_def list_all_iff)
  ultimately show ?thesis ..
qed

lemma addConfig_keeps_invariant:
  assumes "cm_wf cm st" and "addConfig cm st config ts w = Some (k', cm', st')"
  shows "cm_wf cm' st'" and "foreign cm st r \<Longrightarrow> foreign cm' st' r"
proof -
  from addConfig_result [OF assms(2)] obtain obj where o: "heap st config = Some obj"
    "configs cm' = obj_set (configs cm) k' (next_ref st)"
    "st' = st\<lparr>heap := (heap st)(next_ref st \<mapsto> obj), next_ref := Suc (next_ref st)\<rparr>"
    by blast
  have sub: "set (map snd (configs cm')) \<subseteq> insert (next_ref st) (set (map snd (configs cm)))"
    unfolding o(2) by (rule set_obj_set)
  show "cm_wf cm' st'"
    unfolding cm_wf_def list_all_iff
  proof (clarify)
    fix k r assume "(k, r) \<in> set (configs cm')"
    then have "r \<in> set (map snd (configs cm'))" by force
    with sub have "r = next_ref st \<or> r \<in> set (map snd (configs cm))" by auto
    then show "r < next_ref st' \<and> heap st' r \<noteq> None"
    proof
      assume "r = next_ref st"
      then show ?thesis by (simp add: o(3))
    next
      assume "r \<in> set (map snd (configs cm))"
      then obtain k2 where "(k2, r) \<in> set (configs cm)" by auto
      with assms(1) have "r < next_ref st \<and> heap st r \<noteq> None"
        by (auto simp: cm_wf_def list_all_iff)
      then show ?thesis by (auto simp: o(3))
    qed
  qed
  show "foreign cm st r \<Longrightarrow> foreign cm' st' r"
    using sub by (auto simp: foreign_def o(3))
qed

text \<open>
  C9. In a state where every stored reference is allocated: the object \<open>getConfig\<close>
  returns, and every object in the map \<open>getAllConfigs\<close> returns, has the stored fields
  and, when mutated afterwards, leaves every stored profile as it was; and after
  \<open>addConfig\<close> or \<open>updateConfig\<close> has taken a caller's object, the stored profile has
  that object's fields and a later mutation of the caller's object leaves every stored
  profile as it was.
\<close>

theorem config_copies_are_defensive:
  assumes "cm_wf cm st"
  shows "(\<forall>copy st'. getConfig cm st k0 = (Some copy, st') \<longrightarrow>
            heap st' copy = stored_profile cm st k0
            \<and> stored_profile cm (mutate st' copy f) k = stored_profile cm st k)
       \<and> (\<forall>out st'. getAllConfigs cm st = (out, st') \<longrightarrow>
            (\<forall>(k', copy) \<in> set out. stored_profile cm (mutate st' copy f) k = stored_profile cm st k))
       \<and> (\<forall>k' cm' st'. foreign cm st config \<and> addConfig cm st config ts w = Some (k', cm', st') \<longrightarrow>
            stored_profile cm' st' k' = heap st config
            \<and> stored_profile cm' (mutate st' config f) k = stored_profile cm' st' k)
       \<and> (\<forall>cm' st'. foreign cm st config \<and> updateConfig cm st k0 config w = Some (True, cm', st') \<longrightarrow>
            stored_profile cm' st' k0 = heap st config
            \<and> stored_profile cm' (mutate st' config f) k = stored_profile cm' st' k)"
proof (intro conjI allI impI)
  fix copy st' assume g: "getConfig cm st k0 = (Some copy, st')"
  from getConfig_fresh [OF g] show "heap st' copy = stored_profile cm st k0" by blast
  from getConfig_fresh [OF g] have c: "copy = next_ref st" and h: "\<And>r. r < next_ref st \<Longrightarrow> heap st' r = heap st r"
    by auto
  have "copy \<notin> set (map snd (configs cm))" using not_stored_if_fresh [OF assms] c by simp
  then have "stored_profile cm (mutate st' copy f) k = stored_profile cm st' k"
    by (rule stored_profile_mutate)
  also have "\<dots> = stored_profile cm st k" using stored_profile_agree [OF assms] h by blast
  finally show "stored_profile cm (mutate st' copy f) k = stored_profile cm st k" .
next
  fix out st' assume g: "getAllConfigs cm st = (out, st')"
  show "\<forall>(k', copy) \<in> set out. stored_profile cm (mutate st' copy f) k = stored_profile cm st k"
  proof (clarify)
    fix k' copy assume m: "(k', copy) \<in> set out"
    from copy_all_fresh [OF g [unfolded getAllConfigs_def]] m
    have c: "next_ref st \<le> copy" and h: "\<And>r. r < next_ref st \<Longrightarrow> heap st' r = heap st r" by auto
    have "copy \<notin> set (map snd (configs cm))" using not_stored_if_fresh [OF assms c] .
    then have "stored_profile cm (mutate st' copy f) k = stored_profile cm st' k"
      by (rule stored_profile_mutate)
    also have "\<dots> = stored_profile cm st k" using stored_profile_agree [OF assms] h by blast
    finally show "stored_profile cm (mutate st' copy f) k = stored_profile cm st k" .
  qed
next
  fix k' cm' st' assume a: "foreign cm st config \<and> addConfig cm st config ts w = Some (k', cm', st')"
  then obtain obj where o: "heap st config = Some obj" "configs cm' = obj_set (configs cm) k' (next_ref st)"
    "st' = st\<lparr>heap := (heap st)(next_ref st \<mapsto> obj), next_ref := Suc (next_ref st)\<rparr>"
    using addConfig_result by blast
  from a have fo: "foreign cm st config" by simp
  show "stored_profile cm' st' k' = heap st config"
    using stored_after_set(2) [OF fo o] o(1) by simp
  show "stored_profile cm' (mutate st' config f) k = stored_profile cm' st' k"
    using stored_after_set(1) [OF fo o] .
next
  fix cm' st' assume a: "foreign cm st config \<and> updateConfig cm st k0 config w = Some (True, cm', st')"
  then obtain obj where o: "heap st config = Some obj" "configs cm' = obj_set (configs cm) k0 (next_ref st)"
    "st' = st\<lparr>heap := (heap st)(next_ref st \<mapsto> obj), next_ref := Suc (next_ref st)\<rparr>"
    using updateConfig_result by blast
  from a have fo: "foreign cm st config" by simp
  show "stored_profile cm' st' k0 = heap st config"
    using stored_after_set(2) [OF fo o] o(1) by simp
  show "stored_profile cm' (mutate st' config f) k = stored_profile cm' st' k"
    using stored_after_set(1) [OF fo o] .
qed


theorem config_copies_are_defensive_witness:
  "cm_wf demo_cm demo_store
   \<and> getConfig demo_cm demo_store ''demo-id'' =
       (Some 2, demo_store\<lparr>heap := (heap demo_store)(2 \<mapsto> demo_profile), next_ref := 3\<rparr>)
   \<and> stored_profile demo_cm
         (mutate (demo_store\<lparr>heap := (heap demo_store)(2 \<mapsto> demo_profile), next_ref := 3\<rparr>) 2 rename_host)
         ''demo-id'' = Some demo_profile
   \<and> foreign demo_cm demo_store 0
   \<and> (\<exists>k' cm' st'. addConfig demo_cm demo_store 0 7 True = Some (k', cm', st')
         \<and> stored_profile cm' (mutate st' 0 rename_host) k' = Some demo_profile)"
proof -
  have wf: "cm_wf demo_cm demo_store"
    by (simp add: cm_wf_def demo_cm_def demo_store_def)
  have g: "getConfig demo_cm demo_store ''demo-id'' =
       (Some 2, demo_store\<lparr>heap := (heap demo_store)(2 \<mapsto> demo_profile), next_ref := 3\<rparr>)"
    by (simp add: getConfig_def spread_copy_def alloc_def demo_cm_def demo_store_def)
  have fo: "foreign demo_cm demo_store 0"
    by (simp add: foreign_def demo_cm_def demo_store_def)
  obtain k' cm' st' where a: "addConfig demo_cm demo_store 0 7 True = Some (k', cm', st')"
    by (simp add: addConfig_def alloc_def Let_def demo_store_def)
  have s0: "stored_profile demo_cm demo_store ''demo-id'' = Some demo_profile"
    by (simp add: stored_profile_def demo_cm_def demo_store_def)
  have h0: "heap demo_store 0 = Some demo_profile"
    by (simp add: demo_store_def)
  note T = config_copies_are_defensive [OF wf, of "''demo-id''" rename_host "''demo-id''" 0 7 True]
  from T g s0 have one: "stored_profile demo_cm
         (mutate (demo_store\<lparr>heap := (heap demo_store)(2 \<mapsto> demo_profile), next_ref := 3\<rparr>) 2 rename_host)
         ''demo-id'' = Some demo_profile"
    by simp
  note T' = config_copies_are_defensive [OF wf, of "''demo-id''" rename_host k' 0 7 True]
  from T' fo a h0 have "stored_profile cm' (mutate st' 0 rename_host) k' = Some demo_profile"
    by simp
  with wf g one fo a show ?thesis by blast
qed

section \<open>The registry invariant\<close>

lemma registry_inv_init: "registry_inv mgr_init"
  by (simp add: registry_inv_def mgr_init_def isConnected_def)

lemma registry_inv_connect:
  "registry_inv m \<Longrightarrow> registry_inv (snd (mgr_connect m configOrId timestamp driver))"
  by (auto simp: registry_inv_def mgr_connect_def isConnected_def split: sum.splits option.splits)

lemma registry_inv_disconnect:
  "registry_inv m \<Longrightarrow> registry_inv (mgr_disconnect m connectionId close_ok)"
  by (auto simp: registry_inv_def mgr_disconnect_def isConnected_def split: option.splits)

lemma registry_inv_profiles:
  "registry_inv m \<Longrightarrow> registry_inv (m\<lparr>profiles := ps\<rparr>)"
  by (simp add: registry_inv_def isConnected_def)

lemma registry_inv_step: "registry_inv m \<Longrightarrow> registry_inv (mgr_step m op)"
proof (cases op)
  case (Connect configOrId timestamp driver)
  assume "registry_inv m"
  then show ?thesis using Connect by (simp add: registry_inv_connect)
next
  case (Disconnect connectionId close_ok)
  assume "registry_inv m"
  then show ?thesis using Disconnect by (simp add: registry_inv_disconnect)
next
  case (AddConfig config timestamp)
  assume "registry_inv m"
  then show ?thesis using AddConfig
    by (simp add: mgr_addConfig_def Let_def registry_inv_profiles)
next
  case (RemoveConfig connectionId close_ok write_ok)
  assume "registry_inv m"
  then show ?thesis using RemoveConfig
    by (simp add: mgr_removeConfig_def Let_def registry_inv_profiles registry_inv_disconnect)
next
  case (UpdateConfig connectionId config close_ok)
  assume "registry_inv m"
  then show ?thesis using UpdateConfig
    by (simp add: mgr_updateConfig_def Let_def registry_inv_profiles registry_inv_disconnect)
next
  case (EnsureConnected connectionId timestamp driver)
  assume "registry_inv m"
  then show ?thesis using EnsureConnected
    by (simp add: mgr_ensureConnected_def registry_inv_connect)
next
  case (ConnectResumes connectionId connection)
  assume "registry_inv m"
  then show ?thesis using ConnectResumes
    by (auto simp: registry_inv_def isConnected_def)
next
  case (DisconnectResumes connectionId)
  assume "registry_inv m"
  then show ?thesis using DisconnectResumes
    by (auto simp: registry_inv_def isConnected_def)
qed

lemma registry_inv_foldl: "registry_inv m \<Longrightarrow> registry_inv (foldl mgr_step m ops)"
  by (induction ops arbitrary: m) (simp_all add: registry_inv_step)

text \<open>
  C10. After any sequence of \<open>connect\<close>, \<open>disconnect\<close>, \<open>addConfig\<close>, \<open>removeConfig\<close>,
  \<open>updateConfig\<close> and \<open>ensureConnected\<close> calls, with any answers of the driver and with
  suspended calls resuming in between, an id for which \<open>isConnected\<close> returns true has a
  handle in the \<open>connections\<close> map.
\<close>

theorem isConnected_has_handle:
  "isConnected (mgr_run ops) connectionId \<Longrightarrow> connections (mgr_run ops) connectionId \<noteq> None"
  using registry_inv_foldl [OF registry_inv_init, of ops]
  by (simp add: registry_inv_def mgr_run_def)

theorem isConnected_has_handle_witness:
  "isConnected (mgr_run [AddConfig demo_profile 5,
                         EnsureConnected (generateConnectionId demo_profile 5) 6 (Some (1::nat)),
                         Disconnect (generateConnectionId demo_profile 5) False])
     (generateConnectionId demo_profile 5)
   \<and> connections (mgr_run [AddConfig demo_profile 5,
                         EnsureConnected (generateConnectionId demo_profile 5) 6 (Some (1::nat)),
                         Disconnect (generateConnectionId demo_profile 5) False])
     (generateConnectionId demo_profile 5) \<noteq> None"
proof -
  have c: "isConnected (mgr_run [AddConfig demo_profile 5,
                         EnsureConnected (generateConnectionId demo_profile 5) 6 (Some (1::nat)),
                         Disconnect (generateConnectionId demo_profile 5) False])
     (generateConnectionId demo_profile 5)"
    by (simp add: mgr_run_def mgr_init_def mgr_addConfig_def mgr_ensureConnected_def mgr_connect_def
        mgr_disconnect_def open_connection_def isConnected_def demo_profile_def Let_def)
  from c isConnected_has_handle [OF c] show ?thesis by simp
qed

section \<open>The order of the writes\<close>

lemma starts_with_append [simp]: "starts_with (p @ s) p"
  by (induction p) auto

lemma write_kinds_append: "write_kinds (xs @ ys) = write_kinds xs @ write_kinds ys"
  by (simp add: write_kinds_def List.map_filter_def)

lemma write_kinds_Cons: "write_kinds (c # cs) = (case call_kind c of None \<Rightarrow> [] | Some k \<Rightarrow> [k]) @ write_kinds cs"
  by (simp add: write_kinds_def List.map_filter_def split: option.splits)

lemma run_calls_prefix: "\<exists>n. fst (run_calls respond db cs) = take n cs"
proof (induction cs arbitrary: db)
  case Nil
  then show ?case by simp
next
  case (Cons c cs)
  show ?case
  proof (cases "respond db c")
    case None
    then have "fst (run_calls respond db (c # cs)) = take 1 (c # cs)" by simp
    then show ?thesis by blast
  next
    case (Some a)
    obtain rows db' where a: "a = (rows, db')" by (cases a)
    from Cons [of db'] obtain n where n: "fst (run_calls respond db' cs) = take n cs" by blast
    obtain tr d ok where r: "run_calls respond db' cs = (tr, d, ok)" by (cases "run_calls respond db' cs")
    have "fst (run_calls respond db (c # cs)) = take (Suc n) (c # cs)"
      using Some a n r by simp
    then show ?thesis by blast
  qed
qed

lemma run_calls_complete: "snd (snd (run_calls respond db cs)) \<Longrightarrow> fst (run_calls respond db cs) = cs"
proof (induction cs arbitrary: db)
  case Nil
  then show ?case by simp
next
  case (Cons c cs)
  show ?case
  proof (cases "respond db c")
    case None
    with Cons.prems show ?thesis by simp
  next
    case (Some a)
    obtain rows db' where a: "a = (rows, db')" by (cases a)
    obtain tr d ok where r: "run_calls respond db' cs = (tr, d, ok)" by (cases "run_calls respond db' cs")
    from Cons.prems Some a r have ok by simp
    with Cons.IH [of db'] r have "tr = cs" by simp
    with Some a r show ?thesis by simp
  qed
qed

lemma fetch_kind [simp]: "call_kind (fetch_call is_mongo tableName) = None"
  by (simp add: fetch_call_def select_all_def)

lemma delete_query_kind:
  "delete_query tableName originalData deleted deleteOp = Some q \<Longrightarrow> starts_with q ''DELETE FROM ''"
  by (auto simp: delete_query_def Let_def split: option.splits if_splits)

lemma delete_calls_kind:
  "c \<in> set (delete_calls is_mongo tableName primaryKeys originalData message) \<Longrightarrow> call_kind c = Some DeleteKind"
  by (auto simp: delete_calls_def Let_def List.map_filter_def split: if_splits dest: delete_query_kind)

lemma update_calls_kind:
  "c \<in> set (update_calls is_mongo tableName primaryKeys originalData message) \<Longrightarrow> call_kind c = Some UpdateKind"
  by (auto simp: update_calls_def Let_def update_query_def split: if_splits)

lemma insert_calls_kind:
  "c \<in> set (insert_calls is_mongo tableName primaryKeys message) \<Longrightarrow> call_kind c = Some InsertKind"
  by (auto simp: insert_calls_def Let_def insert_query_def split: if_splits)

lemma write_kinds_all: "(\<And>c. c \<in> set cs \<Longrightarrow> call_kind c = Some k) \<Longrightarrow> write_kinds cs = replicate (length cs) k"
  by (induction cs) (auto simp: write_kinds_Cons write_kinds_def List.map_filter_def)

lemma filter_writes_all: "(\<And>c. c \<in> set cs \<Longrightarrow> call_kind c \<noteq> None) \<Longrightarrow> filter (\<lambda>c. call_kind c \<noteq> None) cs = cs"
  by (induction cs) auto

lemma sorted_take_ranks:
  "sorted (map kind_rank (take n (replicate a DeleteKind @ replicate b UpdateKind @ replicate c InsertKind)))"
proof -
  have "sorted (map kind_rank (replicate a DeleteKind @ replicate b UpdateKind @ replicate c InsertKind))"
    by (auto simp: sorted_append)
  then show ?thesis
    by (metis take_map sorted_wrt_take)
qed


lemma write_kinds_map:
  "(\<And>c. c \<in> set cs \<Longrightarrow> call_kind c \<noteq> None) \<Longrightarrow> write_kinds cs = map (the \<circ> call_kind) cs"
  by (simp add: write_kinds_def List.map_filter_def filter_writes_all)

lemma write_kinds_take:
  assumes "\<And>c. c \<in> set cs \<Longrightarrow> call_kind c \<noteq> None"
  shows "write_kinds (take n cs) = take n (write_kinds cs)"
proof -
  have "\<And>c. c \<in> set (take n cs) \<Longrightarrow> call_kind c \<noteq> None"
    using assms by (meson in_set_takeD)
  then have "write_kinds (take n cs) = map (the \<circ> call_kind) (take n cs)"
    by (rule write_kinds_map)
  also have "\<dots> = take n (write_kinds cs)"
    using write_kinds_map [OF assms] by (simp add: take_map)
  finally show ?thesis .
qed

text \<open>
  C2. In every run of the save handler the calls that write are sent in the order
  deletes, updates, inserts: their kinds are sorted, they are the first \<open>n\<close> of the
  delete calls followed by the update calls followed by the insert calls (all of them
  unless one throws), and every call of each group has the kind of the group, for a
  relational backend and for a document store alike.
\<close>

theorem writes_in_fixed_order:
  "sorted (map kind_rank (write_kinds (calls (handle_saveChanges respond is_mongo tableName primaryKeys db message))))
   \<and> (\<forall>originalData db1. respond db (fetch_call is_mongo tableName) = Some (originalData, db1) \<longrightarrow>
        (\<exists>n. filter (\<lambda>c. call_kind c \<noteq> None)
                (calls (handle_saveChanges respond is_mongo tableName primaryKeys db message)) =
              take n (delete_calls is_mongo tableName primaryKeys originalData message
                      @ update_calls is_mongo tableName primaryKeys originalData message
                      @ insert_calls is_mongo tableName primaryKeys message)))
   \<and> (\<forall>originalData. 
        (\<forall>c \<in> set (delete_calls is_mongo tableName primaryKeys originalData message). call_kind c = Some DeleteKind)
        \<and> (\<forall>c \<in> set (update_calls is_mongo tableName primaryKeys originalData message). call_kind c = Some UpdateKind)
        \<and> (\<forall>c \<in> set (insert_calls is_mongo tableName primaryKeys message). call_kind c = Some InsertKind))"
proof -
  let ?fetch = "fetch_call is_mongo tableName"
  let ?out = "handle_saveChanges respond is_mongo tableName primaryKeys db message"
  have kinds: "\<And>originalData.
        (\<forall>c \<in> set (delete_calls is_mongo tableName primaryKeys originalData message). call_kind c = Some DeleteKind)
        \<and> (\<forall>c \<in> set (update_calls is_mongo tableName primaryKeys originalData message). call_kind c = Some UpdateKind)
        \<and> (\<forall>c \<in> set (insert_calls is_mongo tableName primaryKeys message). call_kind c = Some InsertKind)"
    using delete_calls_kind update_calls_kind insert_calls_kind by blast
  have main: "sorted (map kind_rank (write_kinds (calls ?out)))
       \<and> (\<forall>originalData db1. respond db ?fetch = Some (originalData, db1) \<longrightarrow>
        (\<exists>n. filter (\<lambda>c. call_kind c \<noteq> None) (calls ?out) =
              take n (delete_calls is_mongo tableName primaryKeys originalData message
                      @ update_calls is_mongo tableName primaryKeys originalData message
                      @ insert_calls is_mongo tableName primaryKeys message)))"
  proof (cases "respond db ?fetch")
    case None
    then have "calls ?out = [?fetch]" by (simp add: handle_saveChanges_def Let_def)
    with None show ?thesis by (simp add: write_kinds_Cons write_kinds_def List.map_filter_def)
  next
    case (Some a)
    obtain originalData db1 where a: "a = (originalData, db1)" by (cases a)
    let ?D = "delete_calls is_mongo tableName primaryKeys originalData message"
    let ?U = "update_calls is_mongo tableName primaryKeys originalData message"
    let ?I = "insert_calls is_mongo tableName primaryKeys message"
    obtain trace db2 ok where r: "run_calls respond db1 (?D @ ?U @ ?I) = (trace, db2, ok)"
      by (cases "run_calls respond db1 (?D @ ?U @ ?I)")
    from run_calls_prefix [of respond db1 "?D @ ?U @ ?I"] r
    obtain n where n: "trace = take n (?D @ ?U @ ?I)" by auto
    have wk: "\<And>c. c \<in> set (?D @ ?U @ ?I) \<Longrightarrow> call_kind c \<noteq> None"
      using kinds [of originalData] by auto
    have "\<And>c. c \<in> set trace \<Longrightarrow> call_kind c \<noteq> None"
      using wk n by (meson in_set_takeD)
    then have ft: "filter (\<lambda>c. call_kind c \<noteq> None) trace = trace"
      by (rule filter_writes_all)
    have wt: "write_kinds trace = take n (write_kinds (?D @ ?U @ ?I))"
      unfolding n using wk by (rule write_kinds_take)
    have "write_kinds (?D @ ?U @ ?I) =
        replicate (length ?D) DeleteKind @ replicate (length ?U) UpdateKind @ replicate (length ?I) InsertKind"
      using kinds [of originalData] by (simp add: write_kinds_append write_kinds_all)
    with wt have st: "sorted (map kind_rank (write_kinds trace))"
      using sorted_take_ranks by simp
    have c: "calls ?out = ?fetch # trace \<or> calls ?out = ?fetch # trace @ [?fetch]"
      using Some a r by (cases ok; cases "respond db2 ?fetch") (auto simp: handle_saveChanges_def Let_def)
    then have w: "write_kinds (calls ?out) = write_kinds trace"
      by (auto simp: write_kinds_Cons write_kinds_append) (simp add: write_kinds_def List.map_filter_def)
    from c have f: "filter (\<lambda>c. call_kind c \<noteq> None) (calls ?out) = trace"
      using ft by auto
    from w st f n Some a show ?thesis by auto
  qed
  from main kinds show ?thesis by blast
qed


text \<open>The statements of the example batch.\<close>

lemma demo_calls: "calls (handle_saveChanges demo_respond False ''t'' [''id''] 0 demo_message) =
   [ExecuteQuery ''SELECT * FROM t LIMIT 1000'',
    ExecuteQuery ''DELETE FROM t WHERE name = 'a' AND id = 1'',
    ExecuteQuery ''UPDATE t SET name = 'c' WHERE id = 2'',
    ExecuteQuery ''INSERT INTO t (name) VALUES ('d')'',
    ExecuteQuery ''SELECT * FROM t LIMIT 1000'']"
  by code_simp

theorem writes_in_fixed_order_witness:
  "demo_respond 0 (fetch_call False ''t'') = Some (demo_rows, 0)
   \<and> write_kinds (calls (handle_saveChanges demo_respond False ''t'' [''id''] 0 demo_message))
       = [DeleteKind, UpdateKind, InsertKind]
   \<and> sorted (map kind_rank (write_kinds (calls (handle_saveChanges demo_respond False ''t'' [''id''] 0 demo_message))))
   \<and> delete_calls False ''t'' [''id''] demo_rows demo_message \<noteq> []
   \<and> update_calls False ''t'' [''id''] demo_rows demo_message \<noteq> []
   \<and> insert_calls False ''t'' [''id''] demo_message \<noteq> []"
proof -
  have f: "demo_respond 0 (fetch_call False ''t'') = Some (demo_rows, 0)"
    by (simp add: demo_respond_def fetch_call_def select_all_def)
  have k: "write_kinds (calls (handle_saveChanges demo_respond False ''t'' [''id''] 0 demo_message))
       = [DeleteKind, UpdateKind, InsertKind]"
    by code_simp
  have d: "delete_calls False ''t'' [''id''] demo_rows demo_message \<noteq> []" by code_simp
  have u: "update_calls False ''t'' [''id''] demo_rows demo_message \<noteq> []" by code_simp
  have i: "insert_calls False ''t'' [''id''] demo_message \<noteq> []" by code_simp
  from writes_in_fixed_order [of demo_respond False "''t''" "[''id'']" 0 demo_message] f k d u i
  show ?thesis by blast
qed

section \<open>Generated statements\<close>

lemma null_like_no_value: "null_like v \<Longrightarrow> \<not> has_value v"
  by (auto simp: null_like_def has_value_def js_trim_def)

lemma has_value_not_null_like: "has_value v \<Longrightarrow> \<not> null_like v \<and> v \<noteq> JUndefined"
  using null_like_no_value by (auto simp: has_value_def)

text \<open>
  In the INSERT the handler of extension.ts builds for a new row: a primary-key column
  whose value is
  \<open>''\<close>, \<open>null\<close> or \<open>'NULL'\<close> is left out of the column list; a primary-key column
  with a value is in the list and its value is written as given (a number bare, a string
  quoted); a column that is not a primary key is always in the list, and its value is
  written \<open>NULL\<close> when it is \<open>''\<close>, \<open>null\<close> or \<open>'NULL'\<close>. The columns keep the order
  of the row, and the text is \<open>INSERT INTO t (columns) VALUES (values)\<close>.
\<close>

lemma insert_omits_empty_keys:
  "(\<forall>c \<in> set (obj_keys insertData).
      (c \<in> set primaryKeys \<and> null_like (obj_get insertData c)
         \<longrightarrow> c \<notin> set (insert_columns primaryKeys insertData))
    \<and> (c \<in> set primaryKeys \<and> has_value (obj_get insertData c)
         \<longrightarrow> c \<in> set (insert_columns primaryKeys insertData)
             \<and> insert_value insertData c = sql_escaped (obj_get insertData c))
    \<and> (c \<notin> set primaryKeys
         \<longrightarrow> c \<in> set (insert_columns primaryKeys insertData)
             \<and> (null_like (obj_get insertData c) \<longrightarrow> insert_value insertData c = ''NULL'')))
   \<and> (\<exists>keep. insert_columns primaryKeys insertData = filter keep (obj_keys insertData))
   \<and> (insert_columns primaryKeys insertData \<noteq> [] \<longrightarrow>
        insert_query tableName primaryKeys insertData =
          ''INSERT INTO '' @ tableName @ '' ('' @ join '', '' (insert_columns primaryKeys insertData)
            @ '') VALUES ('' @ join '', '' (map (insert_value insertData) (insert_columns primaryKeys insertData))
            @ '')'')"
proof (intro conjI ballI impI)
  fix c assume "c \<in> set (obj_keys insertData)" "c \<in> set primaryKeys \<and> null_like (obj_get insertData c)"
  then show "c \<notin> set (insert_columns primaryKeys insertData)"
    by (simp add: insert_columns_def null_like_no_value)
next
  fix c assume "c \<in> set (obj_keys insertData)" "c \<in> set primaryKeys \<and> has_value (obj_get insertData c)"
  then show "c \<in> set (insert_columns primaryKeys insertData)"
    by (simp add: insert_columns_def)
next
  fix c assume "c \<in> set (obj_keys insertData)" "c \<in> set primaryKeys \<and> has_value (obj_get insertData c)"
  then show "insert_value insertData c = sql_escaped (obj_get insertData c)"
    using has_value_not_null_like by (simp add: insert_value_def Let_def)
next
  fix c assume "c \<in> set (obj_keys insertData)" "c \<notin> set primaryKeys"
  then show "c \<in> set (insert_columns primaryKeys insertData)"
    by (simp add: insert_columns_def)
next
  fix c assume "null_like (obj_get insertData c)"
  then show "insert_value insertData c = ''NULL''"
    by (simp add: insert_value_def)
next
  show "\<exists>keep. insert_columns primaryKeys insertData = filter keep (obj_keys insertData)"
    unfolding insert_columns_def by blast
next
  assume "insert_columns primaryKeys insertData \<noteq> []"
  then show "insert_query tableName primaryKeys insertData =
          ''INSERT INTO '' @ tableName @ '' ('' @ join '', '' (insert_columns primaryKeys insertData)
            @ '') VALUES ('' @ join '', '' (map (insert_value insertData) (insert_columns primaryKeys insertData))
            @ '')''"
    by (simp add: insert_query_def Let_def)
qed


lemma insert_omits_empty_keys_example:
  "''id'' \<in> set (obj_keys [(''id'', JStr []), (''name'', JStr ''Ann''), (''email'', JStr []), (''age'', JNum 42)])
   \<and> null_like (obj_get [(''id'', JStr []), (''name'', JStr ''Ann''), (''email'', JStr []), (''age'', JNum 42)] ''id'')
   \<and> ''id'' \<notin> set (insert_columns [''id''] [(''id'', JStr []), (''name'', JStr ''Ann''), (''email'', JStr []), (''age'', JNum 42)])
   \<and> insert_query ''users'' [''id''] [(''id'', JStr []), (''name'', JStr ''Ann''), (''email'', JStr []), (''age'', JNum 42)]
       = ''INSERT INTO users (name, email, age) VALUES ('Ann', NULL, 42)''
   \<and> has_value (obj_get [(''id'', JNum 7), (''name'', JStr ''Ann'')] ''id'')
   \<and> ''id'' \<in> set (insert_columns [''id''] [(''id'', JNum 7), (''name'', JStr ''Ann'')])
   \<and> insert_query ''users'' [''id''] [(''id'', JNum 7), (''name'', JStr ''Ann'')]
       = ''INSERT INTO users (id, name) VALUES (7, 'Ann')''"
proof -
  have a: "''id'' \<in> set (obj_keys [(''id'', JStr []), (''name'', JStr ''Ann''), (''email'', JStr []), (''age'', JNum 42)])"
    by (simp add: obj_keys_def)
  have b: "null_like (obj_get [(''id'', JStr []), (''name'', JStr ''Ann''), (''email'', JStr []), (''age'', JNum 42)] ''id'')"
    by (simp add: null_like_def obj_get_def)
  have c: "insert_query ''users'' [''id''] [(''id'', JStr []), (''name'', JStr ''Ann''), (''email'', JStr []), (''age'', JNum 42)]
       = ''INSERT INTO users (name, email, age) VALUES ('Ann', NULL, 42)''"
    by code_simp
  have d: "''id'' \<in> set (obj_keys [(''id'', JNum 7), (''name'', JStr ''Ann'')])"
    by (simp add: obj_keys_def)
  have e: "has_value (obj_get [(''id'', JNum 7), (''name'', JStr ''Ann'')] ''id'')"
    by code_simp
  have f: "insert_query ''users'' [''id''] [(''id'', JNum 7), (''name'', JStr ''Ann'')]
       = ''INSERT INTO users (id, name) VALUES (7, 'Ann')''"
    by code_simp
  have k: "''id'' \<in> set [''id'']" by simp
  note T1 = insert_omits_empty_keys [of "[(''id'', JStr []), (''name'', JStr ''Ann''), (''email'', JStr []), (''age'', JNum 42)]"
      "[''id'']" "''users''", THEN conjunct1, THEN bspec, OF a]
  have g: "''id'' \<notin> set (insert_columns [''id''] [(''id'', JStr []), (''name'', JStr ''Ann''), (''email'', JStr []), (''age'', JNum 42)])"
    by (rule T1 [THEN conjunct1, THEN mp, OF conjI [OF k b]])
  note T2 = insert_omits_empty_keys [of "[(''id'', JNum 7), (''name'', JStr ''Ann'')]" "[''id'']" "''users''",
      THEN conjunct1, THEN bspec, OF d]
  have h: "''id'' \<in> set (insert_columns [''id''] [(''id'', JNum 7), (''name'', JStr ''Ann'')])"
    by (rule T2 [THEN conjunct2, THEN conjunct1, THEN mp, OF conjI [OF k e], THEN conjunct1])
  show ?thesis
    by (intro conjI) (rule a b c e f g h)+
qed



text \<open>
  C4. Strings in generated statements are to have every single quote doubled. The UPDATE
  builder writes a string between quotes without doubling: the value \<open>O'Brien\<close> arrives
  in the statement as it is. (The DELETE and INSERT builders double it.)
\<close>

theorem update_text_keeps_single_quote:
  "update_query ''users'' [''id'']
     \<lparr>upd_primaryKeyData = [(''id'', JNum 3)], upd_updateData = [(''name'', JStr ''O'Brien'')]\<rparr>
   = ''UPDATE users SET name = 'O'Brien' WHERE id = 3''"
  by code_simp

text \<open>In the same builder \<open>'NULL'\<close> and the empty string are written as quoted strings.\<close>

lemma update_text_null_sentinel:
  "update_query ''users'' [''id'']
     \<lparr>upd_primaryKeyData = [(''id'', JNum 3)], upd_updateData = [(''email'', JStr ''NULL''), (''nick'', JStr [])]\<rparr>
   = ''UPDATE users SET email = 'NULL', nick = '' @ [CHR 0x27, CHR 0x27] @ '' WHERE id = 3''"
  by code_simp

lemma insert_text_doubles_quote:
  "insert_query ''users'' [''id''] [(''name'', JStr ''O'Brien'')]
   = ''INSERT INTO users (name) VALUES ('O'' @ [CHR 0x27, CHR 0x27] @ ''Brien')''"
  by code_simp

text \<open>
  C3. A primary-key column of a new row is to be left out of the INSERT when its value is
  empty and to be written as given when it has a value. The handler of part_000 does not
  look at the key or at the value: it leaves out the column named \<open>id\<close>. The new row with
  key \<open>7\<close> that its page posts is inserted without the key, and a key column of another
  name is written with its empty value. The handler of extension.ts keeps the key of the
  same row.
\<close>

theorem insert_drops_column_named_id:
  "saveChanges0 insert_page =
     Some \<lparr>ch_updates = [], ch_deletes = [],
            ch_inserts = [[(''id'', JStr ''7''), (''name'', JStr ''Ann''), (''email'', JNull)]]\<rparr>
   \<and> calls (save_cycle0 demo_respond ''users'' 0 insert_page)
       = [ExecuteQuery ''INSERT INTO users (name, email) VALUES ('Ann', NULL)'',
          ExecuteQuery ''SELECT * FROM users LIMIT 1000'']
   \<and> insert_query0 ''users'' [''uid''] [(''uid'', JStr []), (''name'', JStr ''Ann'')]
       = ''INSERT INTO users (uid, name) VALUES ('' @ [CHR 0x27, CHR 0x27] @ '', 'Ann')''
   \<and> insert_query ''users'' [''id''] [(''id'', JStr ''7''), (''name'', JStr ''Ann''), (''email'', JNull)]
       = ''INSERT INTO users (id, name, email) VALUES ('7', 'Ann', NULL)''"
  by code_simp

lemma find_never: "List.find (\<lambda>x. False) xs = None"
  by (induction xs) auto

lemma no_key_no_delete: "delete_calls False tableName [] originalData message = []"
  by (auto simp: delete_calls_def Let_def List.map_filter_def build_deletes_def pk_data_def
        delete_query_def find_deleted_row_def find_never split: option.splits)

text \<open>
  C5. For a table without primary key the row to delete is to be identified by equality
  over all its columns. The handler looks the row up through \<open>primaryKeyData\<close>, which is
  empty for such a table, finds none and skips the delete; an update of such a table gets
  an empty WHERE clause. With a key the predicate does range over every column of the
  original row, with \<open>IS NULL\<close> for \<open>null\<close>. In the variant of part_000 the page sends
  the identifier of \<open>getRowIdentifier\<close>, and its \<open>__rowid\<close> entry arrives in the DELETE.
\<close>

theorem keyless_delete_is_skipped:
  "delete_calls False ''t'' [] [[(''name'', JStr ''a''), (''email'', JNull)]]
       \<lparr>modifiedData = [], deletedRows = [''0''], newRows = []\<rparr> = []
   \<and> update_calls False ''t'' [] [[(''name'', JStr ''a''), (''email'', JNull)]]
       \<lparr>modifiedData = [(''0'', [(''name'', JStr ''b'')])], deletedRows = [], newRows = []\<rparr>
       = [ExecuteQuery ''UPDATE t SET name = 'b' WHERE '']
   \<and> delete_calls False ''t'' [''name''] [[(''name'', JStr ''a''), (''email'', JNull)]]
       \<lparr>modifiedData = [], deletedRows = [''0''], newRows = []\<rparr>
       = [ExecuteQuery ''DELETE FROM t WHERE name = 'a' AND email IS NULL'']
   \<and> calls (save_cycle0 demo_respond ''t'' 0 keyless_page)
       = [ExecuteQuery ''DELETE FROM t WHERE __rowid = '1' AND name = 'a' AND email IS NULL'',
          ExecuteQuery ''SELECT * FROM t LIMIT 1000'']"
  by code_simp

section \<open>Validation before any write\<close>

lemma validateData_violation:
  "violates g data \<Longrightarrow> validateData (g_columnsMetadata g) (g_primaryKeys g) data \<noteq> []"
proof -
  assume "violates g data"
  then obtain column where c: "column \<in> set (g_columnsMetadata g)"
      "col_name column \<in> set (g_primaryKeys g) \<or> notNull column"
      "case map_of data (col_name column) of None \<Rightarrow> False | Some s \<Rightarrow> empty_value s"
    by (auto simp: violates_def list_ex_iff)
  from c(3) have "blank (map_of data (col_name column))"
    by (auto simp: empty_value_def split: option.splits)
  with c(1,2) show ?thesis
    by (auto simp: validateData_def filter_empty_conv)
qed

lemma set_obj_set_entries: "set (obj_set ps k v) \<subseteq> insert (k, v) (set ps)"
  by (induction ps k v rule: obj_set.induct) auto

lemma validate_new_rows_inv:
  "(\<And>rowId data. (rowId, data) \<in> set modified \<Longrightarrow> validateData cols pks data \<noteq> [] \<Longrightarrow> hasErrors) \<Longrightarrow>
   validate_new_rows cols pks elements modified hasErrors = (modified', hasErrors') \<Longrightarrow>
   (rowId, data) \<in> set modified' \<Longrightarrow> validateData cols pks data \<noteq> [] \<Longrightarrow> hasErrors'"
proof (induction elements arbitrary: modified hasErrors)
  case Nil
  then show ?case by simp
next
  case (Cons e elements)
  obtain rid row_cells where e: "e = (rid, row_cells)" by (cases e)
  define d where "d = foldl (\<lambda>acc (column, content). obj_set acc column content)
                   (case map_of modified rid of None \<Rightarrow> [] | Some d \<Rightarrow> d) row_cells"
  define m2 where "m2 = obj_set modified rid d"
  define h2 where "h2 = (hasErrors \<or> validateData cols pks d \<noteq> [])"
  have step: "validate_new_rows cols pks elements m2 h2 = (modified', hasErrors')"
    using Cons.prems(2) unfolding e d_def m2_def h2_def by (simp add: Let_def)
  have inv: "\<And>rowId data. (rowId, data) \<in> set m2 \<Longrightarrow> validateData cols pks data \<noteq> [] \<Longrightarrow> h2"
  proof -
    fix rowId data assume a: "(rowId, data) \<in> set m2" "validateData cols pks data \<noteq> []"
    from a(1) set_obj_set_entries [of modified rid d] have "(rowId, data) = (rid, d) \<or> (rowId, data) \<in> set modified"
      unfolding m2_def by auto
    then show h2
    proof
      assume "(rowId, data) = (rid, d)"
      with a(2) show h2 by (simp add: h2_def)
    next
      assume "(rowId, data) \<in> set modified"
      with Cons.prems(1) a(2) show h2 by (auto simp: h2_def)
    qed
  qed
  from Cons.IH [OF inv step Cons.prems(3,4)] show ?case by simp
qed

text \<open>
  C1. The cells of the page are the columns of \<open>columnsMetadata\<close>, so a row assigns
  only such columns. The batch of a save is \<open>modifiedData\<close> with the cells of the new
  rows copied in.
  When some row of it gives a column that is a primary key or not-null the value \<open>''\<close>
  or \<open>'NULL'\<close>, \<open>saveChanges\<close> posts no message: the cycle sends no call to the backend,
  whatever else the batch holds, and the backend is left as it was.
\<close>

theorem invalid_batch_writes_nothing:
  assumes "(rowId, data) \<in> set (fst (checked_batch g))" and "violates g data"
  shows "saveChanges g = None
       \<and> calls (save_cycle respond is_mongo tableName db g) = []
       \<and> final_db (save_cycle respond is_mongo tableName db g) = db"
proof -
  obtain modified hasErrors where cb: "checked_batch g = (modified, hasErrors)"
    by (cases "checked_batch g")
  have first: "\<And>rowId data. (rowId, data) \<in> set (g_modifiedData g) \<Longrightarrow>
       validateData (g_columnsMetadata g) (g_primaryKeys g) data \<noteq> [] \<Longrightarrow>
       list_ex (\<lambda>(rowId, data). validateData (g_columnsMetadata g) (g_primaryKeys g) data \<noteq> []) (g_modifiedData g)"
    by (auto simp: list_ex_iff)
  from assms(1) cb have m: "(rowId, data) \<in> set modified" by simp
  have bad: "validateData (g_columnsMetadata g) (g_primaryKeys g) data \<noteq> []"
    using assms(2) by (rule validateData_violation)
  have hasErrors
    using validate_new_rows_inv [OF first cb [unfolded checked_batch_def] m bad] .
  with cb have "saveChanges g = None" by (simp add: saveChanges_def)
  then show ?thesis by (simp add: save_cycle_def)
qed


theorem invalid_batch_writes_nothing_witness:
  "(''1'', [(''name'', [])]) \<in> set (fst (checked_batch demo_grid))
   \<and> violates demo_grid [(''name'', [])]
   \<and> calls (save_cycle demo_respond False ''t'' 0 demo_grid) = []"
proof -
  have a: "(''1'', [(''name'', [])]) \<in> set (fst (checked_batch demo_grid))" by code_simp
  have b: "violates demo_grid [(''name'', [])]" by code_simp
  have c: "calls (save_cycle demo_respond False ''t'' 0 demo_grid) = []"
    by (rule invalid_batch_writes_nothing [OF a b, of demo_respond False "''t''" 0,
          THEN conjunct2, THEN conjunct1])
  show ?thesis by (intro conjI) (rule a b c)+
qed

text \<open>
  The page of part_000 validates the same way: an update or an insert with an error of
  \<open>validateData\<close> keeps \<open>saveChanges\<close> from posting, and a key or not-null column with
  \<open>''\<close>, \<open>null\<close> or \<open>'NULL'\<close> is such an error.
\<close>

lemma validateData0_violation:
  assumes "col \<in> set columnsMetadata" and "isPrimaryKey col \<or> notNull col"
    and "null_like (obj_get data (col_name col))"
  shows "validateData0 columnsMetadata data \<noteq> []"
proof -
  from assms(3) have "obj_get data (col_name col) = JNull
      \<or> js_trim (js_to_string (obj_get data (col_name col))) = []
      \<or> obj_get data (col_name col) = JStr ''NULL''"
    by (auto simp: null_like_def js_trim_def)
  with assms(1,2) show ?thesis
    by (auto simp: validateData0_def filter_empty_conv Let_def)
qed

lemma saveChanges0_rejects:
  assumes "(\<exists>row. (row, data) \<in> set (updated_rows p)) \<or> data \<in> set (inserted_rows p)"
    and "validateData0 (p_columnsMetadata p) data \<noteq> []"
  shows "saveChanges0 p = None"
    and "calls (save_cycle0 respond tableName db p) = []"
proof -
  from assms have "list_ex (\<lambda>(row, updateData). validateData0 (p_columnsMetadata p) updateData \<noteq> [])
                (updated_rows p)
              \<or> list_ex (\<lambda>insertData. validateData0 (p_columnsMetadata p) insertData \<noteq> [])
                   (inserted_rows p)"
    by (auto simp: list_ex_iff)
  then show "saveChanges0 p = None" by (simp add: saveChanges0_def)
  then show "calls (save_cycle0 respond tableName db p) = []" by (simp add: save_cycle0_def)
qed

section \<open>A save without edits\<close>

text \<open>
  C8. From a page with no modified cell, no deleted row and no new row, the cycle sends
  no write. In part_000 \<open>saveChanges\<close> returns at once: no message, no call, the page
  keeps the rows it shows. In extension.ts the empty batch is posted and the only calls
  of the handler are the fetch of the rows; when the backend answers the fetch with
  \<open>rows\<close> and stays in the same state, the cycle is the fetch of the snapshot, no write,
  the fetch of the refresh, and the rows posted back to the page are \<open>rows\<close>.
\<close>

theorem empty_batch_round_trip:
  assumes "g_modifiedData g = []" and "g_deletedRows g = []" and "g_newRows g = []"
    and "g_newRowElements g = []"
    and "p_modifiedData p = []" and "p_deletedRows p = []" and "p_newRows p = []"
  shows "save_cycle0 respond tableName db p = \<lparr>calls = [], posted = [], final_db = db\<rparr>
       \<and> write_kinds (calls (save_cycle respond is_mongo tableName db g)) = []
       \<and> set (calls (save_cycle respond is_mongo tableName db g)) \<subseteq> {fetch_call is_mongo tableName}
       \<and> (\<forall>rows. respond db (fetch_call is_mongo tableName) = Some (rows, db) \<longrightarrow>
            save_cycle respond is_mongo tableName db g =
              \<lparr>calls = [fetch_call is_mongo tableName, fetch_call is_mongo tableName],
               posted = [SaveSuccess, UpdateData rows], final_db = db\<rparr>)"
proof -
  have msg: "saveChanges g = Some \<lparr>modifiedData = [], deletedRows = [], newRows = []\<rparr>"
    using assms by (simp add: saveChanges_def checked_batch_def)
  have nowrites: "\<And>originalData. delete_calls is_mongo tableName (g_primaryKeys g) originalData
          \<lparr>modifiedData = [], deletedRows = [], newRows = []\<rparr>
        @ update_calls is_mongo tableName (g_primaryKeys g) originalData
          \<lparr>modifiedData = [], deletedRows = [], newRows = []\<rparr>
        @ insert_calls is_mongo tableName (g_primaryKeys g)
          \<lparr>modifiedData = [], deletedRows = [], newRows = []\<rparr> = []"
    by (simp add: delete_calls_def update_calls_def insert_calls_def build_deletes_def
        build_updates_def build_inserts_def List.map_filter_def)
  let ?fetch = "fetch_call is_mongo tableName"
  let ?out = "save_cycle respond is_mongo tableName db g"
  have cases: "calls ?out = [?fetch] \<or> calls ?out = [?fetch, ?fetch]"
    using msg nowrites
    by (auto simp: save_cycle_def handle_saveChanges_def Let_def split: option.splits)
  have k: "call_kind ?fetch = None" by (rule fetch_kind)
  from cases k have w: "write_kinds (calls ?out) = []"
    by (auto simp: write_kinds_def List.map_filter_def)
  from cases have s: "set (calls ?out) \<subseteq> {?fetch}" by auto
  have r: "\<forall>rows. respond db ?fetch = Some (rows, db) \<longrightarrow>
            ?out = \<lparr>calls = [?fetch, ?fetch], posted = [SaveSuccess, UpdateData rows], final_db = db\<rparr>"
    using msg nowrites by (simp add: save_cycle_def handle_saveChanges_def Let_def)
  have e: "save_cycle0 respond tableName db p = \<lparr>calls = [], posted = [], final_db = db\<rparr>"
    using assms(5-7) by (simp add: save_cycle0_def saveChanges0_def)
  from e w s r show ?thesis by (intro conjI)
qed

theorem empty_batch_round_trip_witness:
  "g_modifiedData untouched_grid = [] \<and> g_deletedRows untouched_grid = []
   \<and> g_newRows untouched_grid = [] \<and> g_newRowElements untouched_grid = []
   \<and> p_modifiedData untouched_page = [] \<and> p_deletedRows untouched_page = []
   \<and> p_newRows untouched_page = []
   \<and> calls (save_cycle0 demo_respond ''t'' 0 untouched_page) = []
   \<and> demo_respond 0 (fetch_call False ''t'') = Some (demo_rows, 0)
   \<and> save_cycle demo_respond False ''t'' 0 untouched_grid =
       \<lparr>calls = [fetch_call False ''t'', fetch_call False ''t''],
        posted = [SaveSuccess, UpdateData demo_rows], final_db = 0\<rparr>"
proof -
  have a: "g_modifiedData untouched_grid = []" by (simp add: untouched_grid_def)
  have b: "g_deletedRows untouched_grid = []" by (simp add: untouched_grid_def)
  have c: "g_newRows untouched_grid = []" by (simp add: untouched_grid_def)
  have d: "g_newRowElements untouched_grid = []" by (simp add: untouched_grid_def)
  have pa: "p_modifiedData untouched_page = []" by (simp add: untouched_page_def keyless_page_def)
  have pb: "p_deletedRows untouched_page = []" by (simp add: untouched_page_def)
  have pc: "p_newRows untouched_page = []" by (simp add: untouched_page_def keyless_page_def)
  have f: "demo_respond 0 (fetch_call False ''t'') = Some (demo_rows, 0)"
    by (simp add: demo_respond_def fetch_call_def select_all_def)
  have e: "save_cycle demo_respond False ''t'' 0 untouched_grid =
       \<lparr>calls = [fetch_call False ''t'', fetch_call False ''t''],
        posted = [SaveSuccess, UpdateData demo_rows], final_db = 0\<rparr>"
    by (rule empty_batch_round_trip [OF a b c d pa pb pc, of demo_respond "''t''" 0 False,
          THEN conjunct2, THEN conjunct2, THEN conjunct2, THEN spec, THEN mp, OF f])
  have pe: "save_cycle0 demo_respond ''t'' 0 untouched_page = \<lparr>calls = [], posted = [], final_db = 0\<rparr>"
    by (rule empty_batch_round_trip [OF a b c d pa pb pc, of demo_respond "''t''" 0 False,
          THEN conjunct1])
  have pz: "calls (save_cycle0 demo_respond ''t'' 0 untouched_page) = []"
    unfolding pe by simp
  show ?thesis by (intro conjI) (rule a b c d pa pb pc pz e f)+
qed

section \<open>Commands for a document store\<close>





lemma dispatch_supported:
  "operation \<in> set supportedOperations \<Longrightarrow> \<exists>call. dispatch collectionName operation params = Inr call"
  by (auto simp: supportedOperations_def dispatch_def)
































end
